theory Spec2Isabelle
  imports Complex_Main "HOL-Library.Sublist"
begin

section \<open>Python values\<close>

text \<open>
  The values the validator handles are what \<^verbatim>\<open>json.loads\<close> and \<^verbatim>\<open>response.json()\<close>
  produce: \<^verbatim>\<open>None\<close>, booleans, integers, floats, strings, lists and dictionaries.
  A dictionary is an association list in insertion order (the order is observable when a
  dictionary is iterated); a Python dictionary has distinct keys, and lookups go through
  \<open>map_of\<close>. A float is observed only through its truth value and its textual form.
\<close>

datatype pyfloat = Finite rat | PosInf | NegInf | NaN

datatype json =
    JNull
  | JBool bool
  | JInt int
  | JFloat pyfloat
  | JStr string
  | JList "json list"
  | JDict "(string \<times> json) list"

text \<open>Truth value of a value in a condition (\<^verbatim>\<open>if x:\<close>, \<^verbatim>\<open>not x\<close>).\<close>

fun truthy :: "json \<Rightarrow> bool" where
  "truthy JNull = False"
| "truthy (JBool b) = b"
| "truthy (JInt i) = (i \<noteq> 0)"
| "truthy (JFloat f) = (f \<noteq> Finite 0)"
| "truthy (JStr s) = (s \<noteq> [])"
| "truthy (JList xs) = (xs \<noteq> [])"
| "truthy (JDict d) = (d \<noteq> [])"

text \<open>\<^verbatim>\<open>type(x).__name__\<close>, as it appears in the interpreter's TypeError messages.\<close>

fun type_name :: "json \<Rightarrow> string" where
  "type_name JNull = ''NoneType''"
| "type_name (JBool b) = ''bool''"
| "type_name (JInt i) = ''int''"
| "type_name (JFloat f) = ''float''"
| "type_name (JStr s) = ''str''"
| "type_name (JList xs) = ''list''"
| "type_name (JDict d) = ''dict''"

text \<open>\<^verbatim>\<open>d.get(key, default)\<close>.\<close>

definition dict_get :: "(string \<times> json) list \<Rightarrow> string \<Rightarrow> json \<Rightarrow> json" where
  "dict_get d k dflt = (case map_of d k of Some v \<Rightarrow> v | None \<Rightarrow> dflt)"

text \<open>\<^verbatim>\<open>str(n)\<close> of an integer: decimal digits, with a minus sign when negative.\<close>

fun str_nat :: "nat \<Rightarrow> string" where
  "str_nat n =
     (if n < 10 then [''0123456789'' ! n]
      else str_nat (n div 10) @ [''0123456789'' ! (n mod 10)])"

declare str_nat.simps [simp del]

definition str_int :: "int \<Rightarrow> string" where
  "str_int i = (if i < 0 then ''-'' @ str_nat (nat (- i)) else str_nat (nat i))"

text \<open>
  What \<^verbatim>\<open>{x}\<close> in an f-string inserts. A string is inserted as it is, \<^verbatim>\<open>None\<close>, booleans
  and integers have their fixed spellings. The textual form of floats, lists and
  dictionaries is the interpreter's \<^verbatim>\<open>repr\<close>; it is the parameter \<open>repr\<close>.
\<close>

fun py_str :: "(json \<Rightarrow> string) \<Rightarrow> json \<Rightarrow> string" where
  "py_str repr JNull = ''None''"
| "py_str repr (JBool b) = (if b then ''True'' else ''False'')"
| "py_str repr (JInt i) = str_int i"
| "py_str repr (JStr s) = s"
| "py_str repr v = repr v"

section \<open>Exceptions\<close>

text \<open>
  Exceptions are values. The classes are the ones the validator's \<^verbatim>\<open>except\<close> clauses tell
  apart, with the subclass relation of the \<^verbatim>\<open>json\<close> and \<^verbatim>\<open>requests\<close> libraries:
  \<^verbatim>\<open>Timeout\<close> and \<^verbatim>\<open>ConnectionError\<close> derive from \<^verbatim>\<open>RequestException\<close>,
  \<^verbatim>\<open>ConnectTimeout\<close> from both \<^verbatim>\<open>ConnectionError\<close> and \<^verbatim>\<open>Timeout\<close>, and the
  \<^verbatim>\<open>JSONDecodeError\<close> of \<^verbatim>\<open>requests\<close> from \<^verbatim>\<open>json.JSONDecodeError\<close> and
  \<^verbatim>\<open>RequestException\<close>. All of these derive from \<^verbatim>\<open>Exception\<close>. The two classes
  \<^verbatim>\<open>KeyboardInterrupt\<close> and \<^verbatim>\<open>SystemExit\<close> derive from \<^verbatim>\<open>BaseException\<close> only: an
  \<^verbatim>\<open>except Exception\<close> clause does not match them.
\<close>

datatype exn_class =
    JSONDecodeError
  | RequestsJSONDecodeError
  | Timeout
  | ConnectTimeout
  | ReadTimeout
  | ConnectionError
  | RequestException
  | TypeError
  | AttributeError
  | FrozenInstanceError
  | OtherException
  | KeyboardInterrupt
  | SystemExit

datatype py_exn = Exn (exn_class: exn_class) (exn_str: string)

fun is_JSONDecodeError :: "exn_class \<Rightarrow> bool" where
  "is_JSONDecodeError JSONDecodeError = True"
| "is_JSONDecodeError RequestsJSONDecodeError = True"
| "is_JSONDecodeError _ = False"

fun is_Timeout :: "exn_class \<Rightarrow> bool" where
  "is_Timeout Timeout = True"
| "is_Timeout ConnectTimeout = True"
| "is_Timeout ReadTimeout = True"
| "is_Timeout _ = False"

fun is_ConnectionError :: "exn_class \<Rightarrow> bool" where
  "is_ConnectionError ConnectionError = True"
| "is_ConnectionError ConnectTimeout = True"
| "is_ConnectionError _ = False"

fun is_RequestException :: "exn_class \<Rightarrow> bool" where
  "is_RequestException RequestException = True"
| "is_RequestException Timeout = True"
| "is_RequestException ConnectTimeout = True"
| "is_RequestException ReadTimeout = True"
| "is_RequestException ConnectionError = True"
| "is_RequestException RequestsJSONDecodeError = True"
| "is_RequestException _ = False"

fun is_Exception :: "exn_class \<Rightarrow> bool" where
  "is_Exception KeyboardInterrupt = False"
| "is_Exception SystemExit = False"
| "is_Exception _ = True"

section \<open>Iteration and joining\<close>

text \<open>
  \<^verbatim>\<open>for x in v\<close>: a list yields its elements, a string its characters as one-character
  strings, a dictionary its keys; anything else raises TypeError.
\<close>

definition apostrophe :: string where
  "apostrophe = [CHR 0x27]"

fun py_iter :: "json \<Rightarrow> py_exn + json list" where
  "py_iter (JList xs) = Inr xs"
| "py_iter (JStr s) = Inr (map (\<lambda>c. JStr [c]) s)"
| "py_iter (JDict d) = Inr (map (\<lambda>kv. JStr (fst kv)) d)"
| "py_iter v = Inl (Exn TypeError (apostrophe @ type_name v @ apostrophe @ '' object is not iterable''))"

fun join_strs :: "string \<Rightarrow> string list \<Rightarrow> string" where
  "join_strs sep [] = []"
| "join_strs sep [s] = s"
| "join_strs sep (s # t # ts) = s @ sep @ join_strs sep (t # ts)"

text \<open>
  \<^verbatim>\<open>sep.join(items)\<close> on a list of values: the first item that is not a string raises
  TypeError, naming its index and type.
\<close>

fun join_from :: "nat \<Rightarrow> json list \<Rightarrow> py_exn + string list" where
  "join_from i [] = Inr []"
| "join_from i (JStr s # vs) =
     (case join_from (Suc i) vs of Inl e \<Rightarrow> Inl e | Inr ss \<Rightarrow> Inr (s # ss))"
| "join_from i (v # vs) =
     Inl (Exn TypeError (''sequence item '' @ str_nat i @ '': expected str instance, ''
            @ type_name v @ '' found''))"

definition py_join :: "string \<Rightarrow> json list \<Rightarrow> py_exn + string" where
  "py_join sep vs =
     (case join_from 0 vs of Inl e \<Rightarrow> Inl e | Inr ss \<Rightarrow> Inr (join_strs sep ss))"

text \<open>\<^verbatim>\<open>sep.join(v)\<close> on any value: a value that cannot be iterated raises TypeError.\<close>

definition py_join_value :: "string \<Rightarrow> json \<Rightarrow> py_exn + string" where
  "py_join_value sep v =
     (case py_iter v of
        Inl e \<Rightarrow> Inl (Exn TypeError ''can only join an iterable'')
      | Inr vs \<Rightarrow> py_join sep vs)"

section \<open>The outcome parser\<close>

text \<open>
  The message of one issue (a dictionary), lines 188 to 212 of \<^verbatim>\<open>validate.py\<close>. The parts
  are collected as values: a detail text or diagnostics that is not a string is appended
  all the same and makes the final join raise.
\<close>

definition issue_message :: "(json \<Rightarrow> string) \<Rightarrow> (string \<times> json) list \<Rightarrow> py_exn + string" where
  "issue_message repr issue =
     (let code = dict_get issue ''code'' (JStr ''unknown'');
          details = dict_get issue ''details'' (JDict []);
          diagnostics = dict_get issue ''diagnostics'' (JStr []);
          location = dict_get issue ''location'' (JList []);
          parts1 = (case details of
                      JDict d \<Rightarrow>
                        if d \<noteq> [] then
                          (let detail_text = dict_get d ''text'' (JStr [])
                           in if truthy detail_text then [detail_text] else [])
                        else []
                    | _ \<Rightarrow> []);
          parts2 = (if truthy diagnostics then parts1 @ [diagnostics] else parts1)
      in case (if truthy location then
                 (case py_join_value '', '' location of
                    Inl e \<Rightarrow> Inl e
                  | Inr location_str \<Rightarrow> Inr (parts2 @ [JStr (''Location: '' @ location_str)]))
               else Inr parts2) of
           Inl e \<Rightarrow> Inl e
         | Inr parts3 \<Rightarrow>
             py_join '' - ''
               (if parts3 = [] then [JStr (''Validation issue ('' @ py_str repr code @ '')'')]
                else parts3))"

text \<open>
  The four locals of the parser: \<^verbatim>\<open>is_valid\<close>, \<^verbatim>\<open>errors\<close>, \<^verbatim>\<open>warnings\<close>,
  \<^verbatim>\<open>information\<close>.
\<close>

type_synonym buckets = "bool \<times> string list \<times> string list \<times> string list"

text \<open>The severity of an issue and the bucket it selects, lines 215 to 221.\<close>

definition severity_of :: "(string \<times> json) list \<Rightarrow> json" where
  "severity_of issue = dict_get issue ''severity'' (JStr ''error'')"

definition categorize :: "json \<Rightarrow> string \<Rightarrow> buckets \<Rightarrow> buckets" where
  "categorize severity message b =
     (case b of (is_valid, errors, warnings, information) \<Rightarrow>
        if severity = JStr ''fatal'' \<or> severity = JStr ''error'' then
          (False, errors @ [''Error: '' @ message], warnings, information)
        else if severity = JStr ''warning'' then
          (is_valid, errors, warnings @ [''Warning: '' @ message], information)
        else if severity = JStr ''information'' then
          (is_valid, errors, warnings, information @ [''Info: '' @ message])
        else (is_valid, errors, warnings, information))"

text \<open>The loop over the issues, lines 184 to 221: an entry that is not a dictionary is skipped.\<close>

fun parse_issues :: "(json \<Rightarrow> string) \<Rightarrow> json list \<Rightarrow> buckets \<Rightarrow> py_exn + buckets" where
  "parse_issues repr [] b = Inr b"
| "parse_issues repr (JDict issue # rest) b =
     (case issue_message repr issue of
        Inl e \<Rightarrow> Inl e
      | Inr message \<Rightarrow> parse_issues repr rest (categorize (severity_of issue) message b))"
| "parse_issues repr (v # rest) b = parse_issues repr rest b"

text \<open>\<^verbatim>\<open>_parse_operation_outcome\<close>, lines 160 to 227.\<close>

definition parse_operation_outcome :: "(json \<Rightarrow> string) \<Rightarrow> json \<Rightarrow> py_exn + buckets" where
  "parse_operation_outcome repr operation_outcome =
     (case operation_outcome of
        JDict d \<Rightarrow>
          if dict_get d ''resourceType'' JNull \<noteq> JStr ''OperationOutcome'' then
            Inr (False, [''Expected OperationOutcome resource from validation endpoint''], [], [])
          else
            (let issues = dict_get d ''issue'' (JList [])
             in case py_iter issues of
                  Inl e \<Rightarrow> Inl e
                | Inr items \<Rightarrow>
                    (case parse_issues repr items (True, [], [], []) of
                       Inl e \<Rightarrow> Inl e
                     | Inr (is_valid, errors, warnings, information) \<Rightarrow>
                         Inr (is_valid, errors, warnings,
                              if \<not> truthy issues
                                 \<and> dict_get d ''resourceType'' JNull = JStr ''OperationOutcome''
                              then information @ [''Validation completed successfully'']
                              else information)))
      | _ \<Rightarrow> Inr (False, [''Invalid OperationOutcome format''], [], []))"

section \<open>The result record\<close>

text \<open>
  The dataclass \<^verbatim>\<open>ValidationResult\<close>, lines 7 to 20. The fields declared with the default
  \<^verbatim>\<open>None\<close> hold \<open>JNull\<close> (or \<open>None\<close> for the timestamp) when nothing was given.
\<close>

record ValidationResult =
  is_valid :: bool
  errors :: "string list"
  warnings :: "string list"
  information :: "string list"
  resource_type :: json
  timestamp :: "string option"
  operation_outcome :: json

text \<open>
  \<^verbatim>\<open>__post_init__\<close>: a timestamp that was not supplied is set to the current time, given
  here as the text \<open>now\<close> that \<^verbatim>\<open>datetime.utcnow().isoformat()\<close> returns.
\<close>

definition post_init :: "string \<Rightarrow> ValidationResult \<Rightarrow> ValidationResult" where
  "post_init now r = (if timestamp r = None then r\<lparr>timestamp := Some now\<rparr> else r)"

text \<open>The constructor the dataclass generates: the fields are stored, then \<^verbatim>\<open>__post_init__\<close> runs.\<close>

definition ValidationResult_init ::
  "string \<Rightarrow> bool \<Rightarrow> string list \<Rightarrow> string list \<Rightarrow> string list \<Rightarrow> json \<Rightarrow> string option \<Rightarrow> json
   \<Rightarrow> ValidationResult" where
  "ValidationResult_init now v es ws infos rt ts oo =
     post_init now
       \<lparr>is_valid = v, errors = es, warnings = ws, information = infos,
        resource_type = rt, timestamp = ts, operation_outcome = oo\<rparr>"

section \<open>The validation request\<close>

text \<open>
  The outside world of one call: the JSON parser, the HTTP transport, the clock and the
  interpreter's \<^verbatim>\<open>repr\<close>. A request holds the arguments of \<^verbatim>\<open>requests.post\<close>; a response
  holds what the validator reads of it, \<open>resp_json\<close> being what \<^verbatim>\<open>response.json()\<close> returns
  or raises.
\<close>

record request =
  req_url :: string
  req_json :: json
  req_headers :: "(string \<times> string) list"
  req_params :: "(string \<times> string) list"
  req_timeout :: int

record response =
  status_code :: int
  resp_text :: string
  resp_json :: "py_exn + json"

record env =
  json_loads :: "string \<Rightarrow> py_exn + json"
  requests_post :: "request \<Rightarrow> py_exn + response"
  utcnow_isoformat :: string
  py_repr :: "json \<Rightarrow> string"

text \<open>What the call does to the outside world, in order.\<close>

datatype event = Post request | ResponseJson

text \<open>The local variables of \<^verbatim>\<open>validate_fhir_resource\<close>, lines 42 to 46, and the events so far.\<close>

record locals =
  l_errors :: "string list"
  l_warnings :: "string list"
  l_information :: "string list"
  detected_resource_type :: json
  l_operation_outcome :: json
  events :: "event list"

text \<open>How a block of statements ends: at its end, by raising, or by a \<^verbatim>\<open>return\<close>.\<close>

datatype completion = Normal | Raise py_exn | Return ValidationResult

text \<open>\<^verbatim>\<open>s.rstrip('/')\<close>: all trailing slashes are removed.\<close>

definition rstrip_slash :: "string \<Rightarrow> string" where
  "rstrip_slash s = rev (dropWhile (\<lambda>c. c = CHR ''/'') (rev s))"

text \<open>An optional string argument as a value: \<^verbatim>\<open>None\<close> or the string.\<close>

fun opt_value :: "string option \<Rightarrow> json" where
  "opt_value None = JNull"
| "opt_value (Some s) = JStr s"

text \<open>Lines 64 and 65: the payload's \<^verbatim>\<open>resourceType\<close>, when the payload is a dictionary with that key.\<close>

definition detect :: "json \<Rightarrow> json \<Rightarrow> json" where
  "detect resource_dict previous =
     (case resource_dict of
        JDict d \<Rightarrow> (case map_of d ''resourceType'' of Some v \<Rightarrow> v | None \<Rightarrow> previous)
      | _ \<Rightarrow> previous)"

text \<open>Lines 68 to 76.\<close>

definition validation_url :: "(json \<Rightarrow> string) \<Rightarrow> string \<Rightarrow> json \<Rightarrow> json \<Rightarrow> string" where
  "validation_url repr fhir_server_url rtype detected =
     (let fhir_base_url = rstrip_slash fhir_server_url
      in if truthy rtype then fhir_base_url @ ''/'' @ py_str repr rtype @ ''/$validate''
         else if truthy detected then fhir_base_url @ ''/'' @ py_str repr detected @ ''/$validate''
         else fhir_base_url @ ''/$validate'')"

text \<open>Lines 79 to 96: the request that is posted.\<close>

definition build_request :: "(json \<Rightarrow> string) \<Rightarrow> json \<Rightarrow> string \<Rightarrow> string option \<Rightarrow> string option \<Rightarrow> int \<Rightarrow> json \<Rightarrow> request" where
  "build_request repr resource_dict fhir_server_url rtype profile_url tmo detected =
     \<lparr>req_url = validation_url repr fhir_server_url (opt_value rtype) detected,
      req_json = resource_dict,
      req_headers = [(''Content-Type'', ''application/fhir+json''),
                     (''Accept'', ''application/fhir+json'')],
      req_params = (case profile_url of
                      Some p \<Rightarrow> if p \<noteq> [] then [(''profile'', p)] else []
                    | None \<Rightarrow> []),
      req_timeout = tmo\<rparr>"

text \<open>
  The branches for the statuses 200, 400 and 422 (lines 101 to 109, 113 to 120 and 127 to
  134) are the same statements with a different message in the handler, here \<open>fallback\<close>:
  the body is parsed, stored, and handed to the outcome parser, and the three buckets are
  extended; a \<^verbatim>\<open>json.JSONDecodeError\<close> raised on the way appends the message instead,
  any other exception goes on to the outer handlers.
\<close>

definition parse_branch :: "(json \<Rightarrow> string) \<Rightarrow> response \<Rightarrow> string \<Rightarrow> locals \<Rightarrow> locals \<times> completion" where
  "parse_branch repr resp fallback st =
     (let st1 = st\<lparr>events := events st @ [ResponseJson]\<rparr>
      in case resp_json resp of
           Inl e \<Rightarrow>
             if is_JSONDecodeError (exn_class e)
             then (st1\<lparr>l_errors := l_errors st1 @ [fallback]\<rparr>, Normal)
             else (st1, Raise e)
         | Inr oo \<Rightarrow>
             (let st2 = st1\<lparr>l_operation_outcome := oo\<rparr>
              in case parse_operation_outcome repr oo of
                   Inl e \<Rightarrow>
                     if is_JSONDecodeError (exn_class e)
                     then (st2\<lparr>l_errors := l_errors st2 @ [fallback]\<rparr>, Normal)
                     else (st2, Raise e)
                 | Inr (v, parsed_errors, parsed_warnings, parsed_info) \<Rightarrow>
                     (st2\<lparr>l_errors := l_errors st2 @ parsed_errors,
                          l_warnings := l_warnings st2 @ parsed_warnings,
                          l_information := l_information st2 @ parsed_info\<rparr>, Normal)))"

text \<open>Lines 99 to 137: the branch on the status code.\<close>

definition handle_response :: "(json \<Rightarrow> string) \<Rightarrow> response \<Rightarrow> locals \<Rightarrow> locals \<times> completion" where
  "handle_response repr resp st =
     (if status_code resp = 200 then
        parse_branch repr resp ''Server returned invalid JSON response'' st
      else if status_code resp = 400 then
        parse_branch repr resp
          (''Validation failed with status '' @ str_int (status_code resp) @ '': '' @ resp_text resp) st
      else if status_code resp = 404 then
        (st\<lparr>l_errors := l_errors st
              @ [''FHIR server validation endpoint not found - check server URL and resource type'']\<rparr>,
         Normal)
      else if status_code resp = 422 then
        parse_branch repr resp
          (''Validation failed with status '' @ str_int (status_code resp) @ '': '' @ resp_text resp) st
      else
        (st\<lparr>l_errors := l_errors st
              @ [''FHIR server returned status '' @ str_int (status_code resp) @ '': '' @ resp_text resp]\<rparr>,
         Normal))"

text \<open>
  Lines 50 to 61. The payload is the value passed as \<^verbatim>\<open>resource_json\<close>: a string is
  parsed, anything else is used as it is. A \<^verbatim>\<open>json.JSONDecodeError\<close> of the parser
  returns at once, with a record built on the spot; any other exception is raised on.
\<close>

definition load_payload :: "env \<Rightarrow> json \<Rightarrow> completion + json" where
  "load_payload E resource_json =
     (case resource_json of
        JStr s \<Rightarrow>
          (case json_loads E s of
             Inl e \<Rightarrow>
               if is_JSONDecodeError (exn_class e)
               then Inl (Return (ValidationResult_init (utcnow_isoformat E) False
                                   [''Invalid JSON format: '' @ exn_str e] [] [] JNull None JNull))
               else Inl (Raise e)
           | Inr v \<Rightarrow> Inr v)
      | v \<Rightarrow> Inr v)"

text \<open>Lines 49 to 137, the body of the \<^verbatim>\<open>try\<close>.\<close>

definition try_body :: "env \<Rightarrow> json \<Rightarrow> string \<Rightarrow> string option \<Rightarrow> string option \<Rightarrow> int \<Rightarrow> locals \<Rightarrow> locals \<times> completion" where
  "try_body E resource_json fhir_server_url rtype profile_url tmo st =
     (case load_payload E resource_json of
        Inl c \<Rightarrow> (st, c)
      | Inr resource_dict \<Rightarrow>
          (let st1 = st\<lparr>detected_resource_type := detect resource_dict (detected_resource_type st)\<rparr>;
               req = build_request (py_repr E) resource_dict fhir_server_url rtype profile_url tmo
                       (detected_resource_type st1);
               st2 = st1\<lparr>events := events st1 @ [Post req]\<rparr>
           in case requests_post E req of
                Inl e \<Rightarrow> (st2, Raise e)
              | Inr resp \<Rightarrow> handle_response (py_repr E) resp st2))"

text \<open>
  Lines 139 to 149, the \<^verbatim>\<open>except\<close> clauses in their order: the first clause whose class
  the exception is an instance of appends its message. An exception no clause matches
  propagates.
\<close>

definition handlers :: "int \<Rightarrow> py_exn \<Rightarrow> locals \<Rightarrow> locals \<times> completion" where
  "handlers tmo e st =
     (if is_Timeout (exn_class e) then
        (st\<lparr>l_errors := l_errors st
              @ [''Request to FHIR server timed out after '' @ str_int tmo @ '' seconds'']\<rparr>, Normal)
      else if is_ConnectionError (exn_class e) then
        (st\<lparr>l_errors := l_errors st
              @ [''Could not connect to FHIR server - check URL and network connectivity'']\<rparr>, Normal)
      else if is_RequestException (exn_class e) then
        (st\<lparr>l_errors := l_errors st @ [''Request to FHIR server failed: '' @ exn_str e]\<rparr>, Normal)
      else if is_Exception (exn_class e) then
        (st\<lparr>l_errors := l_errors st @ [''Unexpected error during validation: '' @ exn_str e]\<rparr>, Normal)
      else (st, Raise e))"

text \<open>Lines 42 to 46.\<close>

definition initial_locals :: locals where
  "initial_locals =
     \<lparr>l_errors = [], l_warnings = [], l_information = [],
      detected_resource_type = JNull, l_operation_outcome = JNull, events = []\<rparr>"

text \<open>Lines 151 to 158.\<close>

definition final_result :: "env \<Rightarrow> locals \<Rightarrow> ValidationResult" where
  "final_result E st =
     ValidationResult_init (utcnow_isoformat E) (length (l_errors st) = 0)
       (l_errors st) (l_warnings st) (l_information st)
       (detected_resource_type st) None (l_operation_outcome st)"

text \<open>
  \<^verbatim>\<open>validate_fhir_resource\<close>: the \<^verbatim>\<open>try\<close> statement, then the final \<^verbatim>\<open>return\<close>. The result
  is the exception that reaches the caller, or the record returned together with the
  events of the call.
\<close>

definition validate_fhir_resource ::
  "env \<Rightarrow> json \<Rightarrow> string \<Rightarrow> string option \<Rightarrow> string option \<Rightarrow> int
   \<Rightarrow> py_exn + (ValidationResult \<times> event list)" where
  "validate_fhir_resource E resource_json fhir_server_url rtype profile_url tmo =
     (case try_body E resource_json fhir_server_url rtype profile_url tmo initial_locals of
        (st, Return r) \<Rightarrow> Inr (r, events st)
      | (st, Normal) \<Rightarrow> Inr (final_result E st, events st)
      | (st, Raise e) \<Rightarrow>
          (case handlers tmo e st of
             (st', Raise e') \<Rightarrow> Inl e'
           | (st', Return r) \<Rightarrow> Inr (r, events st')
           | (st', Normal) \<Rightarrow> Inr (final_result E st', events st')))"

section \<open>Attribute access on the result record\<close>

text \<open>
  Line 7 declares the class with \<^verbatim>\<open>@dataclass\<close> and no \<^verbatim>\<open>frozen=True\<close>. Assigning to a
  field of a frozen dataclass raises \<^verbatim>\<open>FrozenInstanceError\<close>; on this class the
  assignment is carried out.
\<close>

definition ValidationResult_frozen :: bool where
  "ValidationResult_frozen = False"

datatype assignment =
    Set_is_valid bool
  | Set_errors "string list"
  | Set_warnings "string list"
  | Set_information "string list"
  | Set_resource_type json
  | Set_timestamp "string option"
  | Set_operation_outcome json

fun field_name :: "assignment \<Rightarrow> string" where
  "field_name (Set_is_valid v) = ''is_valid''"
| "field_name (Set_errors v) = ''errors''"
| "field_name (Set_warnings v) = ''warnings''"
| "field_name (Set_information v) = ''information''"
| "field_name (Set_resource_type v) = ''resource_type''"
| "field_name (Set_timestamp v) = ''timestamp''"
| "field_name (Set_operation_outcome v) = ''operation_outcome''"

fun assign :: "assignment \<Rightarrow> ValidationResult \<Rightarrow> ValidationResult" where
  "assign (Set_is_valid v) r = r\<lparr>is_valid := v\<rparr>"
| "assign (Set_errors v) r = r\<lparr>errors := v\<rparr>"
| "assign (Set_warnings v) r = r\<lparr>warnings := v\<rparr>"
| "assign (Set_information v) r = r\<lparr>information := v\<rparr>"
| "assign (Set_resource_type v) r = r\<lparr>resource_type := v\<rparr>"
| "assign (Set_timestamp v) r = r\<lparr>timestamp := v\<rparr>"
| "assign (Set_operation_outcome v) r = r\<lparr>operation_outcome := v\<rparr>"

text \<open>The statement \<^verbatim>\<open>r.field = v\<close> run by a holder of the record.\<close>

definition ValidationResult_setattr :: "ValidationResult \<Rightarrow> assignment \<Rightarrow> py_exn + ValidationResult" where
  "ValidationResult_setattr r a =
     (if ValidationResult_frozen
      then Inl (Exn FrozenInstanceError
                  (''cannot assign to field '' @ apostrophe @ field_name a @ apostrophe))
      else Inr (assign a r))"

text \<open>
  The expression \<^verbatim>\<open>r.name\<close>: the seven fields of lines 10 to 16 are the data attributes
  of an instance; any other name raises \<^verbatim>\<open>AttributeError\<close>.
\<close>

datatype attr_value =
    VBool bool
  | VStrings "string list"
  | VJson json
  | VOptString "string option"

definition ValidationResult_getattr :: "ValidationResult \<Rightarrow> string \<Rightarrow> py_exn + attr_value" where
  "ValidationResult_getattr r name =
     (if name = ''is_valid'' then Inr (VBool (is_valid r))
      else if name = ''errors'' then Inr (VStrings (errors r))
      else if name = ''warnings'' then Inr (VStrings (warnings r))
      else if name = ''information'' then Inr (VStrings (information r))
      else if name = ''resource_type'' then Inr (VJson (resource_type r))
      else if name = ''timestamp'' then Inr (VOptString (timestamp r))
      else if name = ''operation_outcome'' then Inr (VJson (operation_outcome r))
      else Inl (Exn AttributeError
                  (apostrophe @ ''ValidationResult'' @ apostrophe @ '' object has no attribute ''
                   @ apostrophe @ name @ apostrophe)))"

text \<open>\<^verbatim>\<open>valid\<close> of \<^verbatim>\<open>environment.py\<close>, lines 9 and 10: it returns \<^verbatim>\<open>validation_result.valid\<close>.\<close>

definition valid :: "ValidationResult \<Rightarrow> py_exn + attr_value" where
  "valid validation_result = ValidationResult_getattr validation_result ''valid''"

section \<open>Sample inputs\<close>

text \<open>
  A parser that accepts one text, a clock, and a \<^verbatim>\<open>repr\<close> for the values whose textual
  form is a parameter; the transport is given separately.
\<close>

definition sample_patient :: json where
  "sample_patient = JDict [(''resourceType'', JStr ''Patient''), (''id'', JStr ''p1'')]"

definition sample_env :: "(request \<Rightarrow> py_exn + response) \<Rightarrow> env" where
  \<open>sample_env transport =
     \<lparr>json_loads = (\<lambda>s. if s = ''{"resourceType": "Patient", "id": "p1"}''
                          then Inr sample_patient
                          else Inl (Exn JSONDecodeError ''Expecting value: line 1 column 1 (char 0)'')),
      requests_post = transport,
      utcnow_isoformat = ''2024-01-01T00:00:00'',
      py_repr = (\<lambda>v. ''?'')\<rparr>\<close>

definition sample_issues :: "json list" where
  "sample_issues =
     [JDict [(''severity'', JStr ''warning''), (''diagnostics'', JStr ''Missing optional field'')],
      JDict [(''severity'', JStr ''error''), (''code'', JStr ''required''),
             (''details'', JDict [(''text'', JStr ''name is required'')]),
             (''location'', JList [JStr ''Patient.name''])],
      JStr ''not an issue'',
      JDict [(''severity'', JStr ''debug''), (''diagnostics'', JStr ''ignored'')],
      JDict [(''severity'', JStr ''information''), (''code'', JStr ''informational'')]]"

definition sample_outcome :: json where
  "sample_outcome =
     JDict [(''resourceType'', JStr ''OperationOutcome''), (''issue'', JList sample_issues)]"

definition respond :: "int \<Rightarrow> string \<Rightarrow> py_exn + json \<Rightarrow> request \<Rightarrow> py_exn + response" where
  "respond status body parsed req =
     Inr \<lparr>status_code = status, resp_text = body, resp_json = parsed\<rparr>"

definition failing :: "py_exn \<Rightarrow> request \<Rightarrow> py_exn + response" where
  "failing e req = Inl e"

definition sample_profile :: string where
  "sample_profile = ''http://example.org/StructureDefinition/p1''"

definition sample_request :: request where
  "sample_request =
     \<lparr>req_url = ''https://example.org/fhir/Patient/$validate'',
      req_json = sample_patient,
      req_headers = [(''Content-Type'', ''application/fhir+json''),
                     (''Accept'', ''application/fhir+json'')],
      req_params = [(''profile'', sample_profile)],
      req_timeout = 30\<rparr>"

definition sample_result :: ValidationResult where
  "sample_result =
     \<lparr>is_valid = False,
      errors = [''Error: name is required - Location: Patient.name''],
      warnings = [''Warning: Missing optional field''],
      information = [''Info: Validation issue (informational)''],
      resource_type = JStr ''Patient'',
      timestamp = Some ''2024-01-01T00:00:00'',
      operation_outcome = sample_outcome\<rparr>"

definition sample_failure :: "string \<Rightarrow> json \<Rightarrow> ValidationResult" where
  "sample_failure message detected =
     \<lparr>is_valid = False, errors = [message], warnings = [], information = [],
      resource_type = detected, timestamp = Some ''2024-01-01T00:00:00'',
      operation_outcome = JNull\<rparr>"

text \<open>The message of an issue when it has one, for stating what the buckets hold.\<close>

definition sample_message :: "(string \<times> json) list \<Rightarrow> string" where
  "sample_message d = (case issue_message (\<lambda>v. ''?'') d of Inr m \<Rightarrow> m | Inl e \<Rightarrow> [])"

text \<open>A payload of another type, posted with the resource type given explicitly.\<close>

definition sample_observation :: json where
  "sample_observation = JDict [(''resourceType'', JStr ''Observation'')]"

definition sample_override_request :: request where
  "sample_override_request =
     \<lparr>req_url = ''https://example.org/fhir/Patient/$validate'',
      req_json = sample_observation,
      req_headers = [(''Content-Type'', ''application/fhir+json''),
                     (''Accept'', ''application/fhir+json'')],
      req_params = [(''profile'', sample_profile)],
      req_timeout = 30\<rparr>"

text \<open>An outcome whose only issue has a number as diagnostics.\<close>

definition sample_bad_outcome :: json where
  "sample_bad_outcome =
     JDict [(''resourceType'', JStr ''OperationOutcome''),
            (''issue'', JList [JDict [(''diagnostics'', JInt 5)]])]"

section \<open>Notions used in the statements\<close>

text \<open>The entries of an issue list that are dictionaries, in order: the ones the loop looks at.\<close>

definition dict_entries :: "json list \<Rightarrow> (string \<times> json) list list" where
  "dict_entries items = concat (map (\<lambda>v. case v of JDict d \<Rightarrow> [d] | _ \<Rightarrow> []) items)"

section \<open>How the blocks of the validator end\<close>

lemma parse_branch_completion:
  "snd (parse_branch repr resp fb st) = Normal \<or> (\<exists>e. snd (parse_branch repr resp fb st) = Raise e)"
  by (auto simp: parse_branch_def Let_def split: sum.splits prod.splits)

lemma handle_response_completion:
  "snd (handle_response repr resp st) = Normal \<or> (\<exists>e. snd (handle_response repr resp st) = Raise e)"
  using parse_branch_completion by (simp add: handle_response_def)

text \<open>The handlers end normally, or raise the exception on when no clause matches it.\<close>

lemma request_classes_are_exceptions:
  "is_Timeout c \<or> is_ConnectionError c \<or> is_RequestException c \<Longrightarrow> is_Exception c"
  by (cases c) simp_all

lemma handlers_handled:
  assumes "is_Exception (exn_class e)"
  shows "handlers tmo e st =
           (st\<lparr>l_errors := l_errors st @
               [if is_Timeout (exn_class e)
                  then ''Request to FHIR server timed out after '' @ str_int tmo @ '' seconds''
                else if is_ConnectionError (exn_class e)
                  then ''Could not connect to FHIR server - check URL and network connectivity''
                else if is_RequestException (exn_class e)
                  then ''Request to FHIR server failed: '' @ exn_str e
                else ''Unexpected error during validation: '' @ exn_str e]\<rparr>, Normal)"
  using assms by (simp add: handlers_def)

lemma handlers_propagated:
  assumes "\<not> is_Exception (exn_class e)"
  shows "handlers tmo e st = (st, Raise e)"
  using assms request_classes_are_exceptions[of "exn_class e"] by (auto simp: handlers_def)

lemma handlers_cases:
  obtains (handled) st' where "handlers tmo e st = (st', Normal)" and "events st' = events st"
  | (propagated) "handlers tmo e st = (st, Raise e)" and "\<not> is_Exception (exn_class e)"
proof (cases "is_Exception (exn_class e)")
  case True
  from handlers_handled[OF this, of tmo st] show ?thesis by (rule handled) simp
next
  case False
  from handlers_propagated[OF this, of tmo st] False show ?thesis by (rule propagated)
qed

lemma try_body_Return:
  "try_body E p url rt prof tmo st = (st', Return r) \<Longrightarrow> load_payload E p = Inl (Return r)"
  using handle_response_completion[of "py_repr E"]
  by (auto simp: try_body_def Let_def split: sum.splits) (metis completion.distinct snd_conv)+

lemma try_body_not_Return:
  assumes "load_payload E p = Inr resource_dict"
  shows "snd (try_body E p url rt prof tmo st) \<noteq> Return r"
proof
  assume "snd (try_body E p url rt prof tmo st) = Return r"
  then have "try_body E p url rt prof tmo st = (fst (try_body E p url rt prof tmo st), Return r)"
    by (metis prod.collapse)
  from try_body_Return[OF this] assms show False by simp
qed

text \<open>Every way out of the function, with the locals the final record is built from.\<close>

lemma validate_cases:
  assumes "validate_fhir_resource E p url rt prof tmo = Inr (r, evs)"
  obtains (returned) "load_payload E p = Inl (Return r)"
  | (constructed) st where "r = final_result E st"
  using assms
proof -
  assume ret: "load_payload E p = Inl (Return r) \<Longrightarrow> thesis"
    and con: "\<And>st. r = final_result E st \<Longrightarrow> thesis"
  obtain st c where b: "try_body E p url rt prof tmo initial_locals = (st, c)" by force
  show thesis
  proof (cases c)
    case Normal
    with assms b con show ?thesis by (auto simp: validate_fhir_resource_def)
  next
    case (Raise e)
    show ?thesis
    proof (cases tmo e st rule: handlers_cases)
      case (handled st')
      with assms b Raise con show ?thesis by (auto simp: validate_fhir_resource_def)
    next
      case propagated
      with assms b Raise show ?thesis by (simp add: validate_fhir_resource_def)
    qed
  next
    case (Return r')
    with assms b have "r' = r" by (auto simp: validate_fhir_resource_def)
    with b Return ret show ?thesis using try_body_Return by blast
  qed
qed

lemma final_result_is_valid:
  "is_valid (final_result E st) = (length (errors (final_result E st)) = 0)"
  by (simp add: final_result_def ValidationResult_init_def post_init_def)

lemma load_payload_Return:
  "load_payload E p = Inl (Return r) \<Longrightarrow>
     \<exists>e. r = \<lparr>is_valid = False, errors = [''Invalid JSON format: '' @ exn_str e], warnings = [],
               information = [], resource_type = JNull, timestamp = Some (utcnow_isoformat E),
               operation_outcome = JNull\<rparr>"
  by (auto simp: load_payload_def ValidationResult_init_def post_init_def
           split: json.splits sum.splits if_splits)

section \<open>The events of a call\<close>

lemma parse_branch_events:
  "events (fst (parse_branch repr resp fb st)) = events st @ [ResponseJson]"
  by (auto simp: parse_branch_def Let_def split: sum.splits prod.splits)

lemma handle_response_events:
  "events (fst (handle_response repr resp st)) = events st
   \<or> events (fst (handle_response repr resp st)) = events st @ [ResponseJson]"
  using parse_branch_events by (simp add: handle_response_def)

lemma try_body_events:
  assumes "load_payload E p = Inr resource_dict"
  shows "\<exists>rest. events (fst (try_body E p url rt prof tmo initial_locals)) =
           Post (build_request (py_repr E) resource_dict url rt prof tmo (detect resource_dict JNull)) # rest
         \<and> (rest = [] \<or> rest = [ResponseJson])"
proof -
  let ?req = "build_request (py_repr E) resource_dict url rt prof tmo (detect resource_dict JNull)"
  let ?st2 = "initial_locals\<lparr>detected_resource_type := detect resource_dict JNull, events := [Post ?req]\<rparr>"
  show ?thesis
  proof (cases "requests_post E ?req")
    case (Inl e)
    with assms show ?thesis
      by (simp add: try_body_def Let_def initial_locals_def)
  next
    case (Inr resp)
    with assms have "try_body E p url rt prof tmo initial_locals = handle_response (py_repr E) resp ?st2"
      by (simp add: try_body_def Let_def initial_locals_def)
    moreover have "events ?st2 = [Post ?req]" by simp
    ultimately show ?thesis
      using handle_response_events[of "py_repr E" resp ?st2] by auto
  qed
qed

lemma validate_events:
  assumes "load_payload E p = Inr resource_dict"
    and "validate_fhir_resource E p url rt prof tmo = Inr (r, evs)"
  shows "evs = events (fst (try_body E p url rt prof tmo initial_locals))"
proof -
  obtain st c where b: "try_body E p url rt prof tmo initial_locals = (st, c)" by force
  show ?thesis
  proof (cases c)
    case Normal
    with assms b show ?thesis by (auto simp: validate_fhir_resource_def)
  next
    case (Raise e)
    show ?thesis
    proof (cases tmo e st rule: handlers_cases)
      case (handled st')
      with assms b Raise show ?thesis by (auto simp: validate_fhir_resource_def)
    next
      case propagated
      with assms b Raise show ?thesis by (simp add: validate_fhir_resource_def)
    qed
  next
    case (Return r')
    with b try_body_not_Return[OF assms(1), of url rt prof tmo initial_locals r'] show ?thesis by simp
  qed
qed

section \<open>Stripping the base URL\<close>

lemma takeWhile_eq_replicate:
  "takeWhile (\<lambda>c. c = a) xs = replicate (length (takeWhile (\<lambda>c. c = a) xs)) a"
  by (induction xs) auto

lemma rstrip_slash_decompose: "\<exists>k. s = rstrip_slash s @ replicate k CHR ''/''"
proof -
  have "rev s = takeWhile (\<lambda>c. c = CHR ''/'') (rev s) @ dropWhile (\<lambda>c. c = CHR ''/'') (rev s)"
    by simp
  then have "s = rev (dropWhile (\<lambda>c. c = CHR ''/'') (rev s)) @ rev (takeWhile (\<lambda>c. c = CHR ''/'') (rev s))"
    by (metis rev_append rev_rev_ident)
  moreover have "rev (takeWhile (\<lambda>c. c = CHR ''/'') (rev s))
                 = replicate (length (takeWhile (\<lambda>c. c = CHR ''/'') (rev s))) CHR ''/''"
    using takeWhile_eq_replicate[of "CHR ''/''" "rev s"] by (metis rev_replicate)
  ultimately show ?thesis unfolding rstrip_slash_def by metis
qed

lemma rstrip_slash_last: "rstrip_slash s = [] \<or> last (rstrip_slash s) \<noteq> CHR ''/''"
  unfolding rstrip_slash_def
  by (metis (mono_tags, lifting) hd_dropWhile last_rev rev_is_Nil_conv)

section \<open>The loop of the outcome parser\<close>

lemma dict_entries_simps [simp]:
  "dict_entries [] = []"
  "dict_entries (JDict d # vs) = d # dict_entries vs"
  "(\<And>d. v \<noteq> JDict d) \<Longrightarrow> dict_entries (v # vs) = dict_entries vs"
  by (auto simp: dict_entries_def split: json.splits)

lemma parse_issues_buckets:
  assumes "\<forall>d. JDict d \<in> set items \<longrightarrow> issue_message repr d = Inr (msg d)"
  shows "parse_issues repr items (v, es, ws, infos) =
     Inr (v \<and> \<not> (\<exists>d. JDict d \<in> set items \<and> (severity_of d = JStr ''fatal'' \<or> severity_of d = JStr ''error'')),
          es @ map (\<lambda>d. ''Error: '' @ msg d)
                 (filter (\<lambda>d. severity_of d = JStr ''fatal'' \<or> severity_of d = JStr ''error'') (dict_entries items)),
          ws @ map (\<lambda>d. ''Warning: '' @ msg d)
                 (filter (\<lambda>d. severity_of d = JStr ''warning'') (dict_entries items)),
          infos @ map (\<lambda>d. ''Info: '' @ msg d)
                 (filter (\<lambda>d. severity_of d = JStr ''information'') (dict_entries items)))"
  using assms
proof (induction repr items "(v, es, ws, infos)" arbitrary: v es ws infos rule: parse_issues.induct)
  case (1 repr)
  then show ?case by simp
next
  case (2 repr issue rest)
  then show ?case
    by (auto simp: categorize_def)
qed simp_all

text \<open>When the loop finishes, every dictionary in the list had a message.\<close>

lemma parse_issues_messages:
  "parse_issues repr items b = Inr b' \<Longrightarrow> JDict d \<in> set items \<Longrightarrow> \<exists>m. issue_message repr d = Inr m"
  by (induction repr items b rule: parse_issues.induct) (auto split: sum.splits)

lemma parse_issues_invalid:
  assumes "parse_issues repr items (v, es, ws, infos) = Inr (v', es', ws', infos')"
    and "JDict d \<in> set items"
    and "severity_of d = JStr ''fatal'' \<or> severity_of d = JStr ''error''"
  shows "\<not> v'"
proof -
  define msg where "msg = (\<lambda>d. case issue_message repr d of Inr m \<Rightarrow> m | Inl e \<Rightarrow> [])"
  have "\<forall>d. JDict d \<in> set items \<longrightarrow> issue_message repr d = Inr (msg d)"
  proof (intro allI impI)
    fix d' assume "JDict d' \<in> set items"
    from parse_issues_messages[OF assms(1) this] obtain m where "issue_message repr d' = Inr m" ..
    then show "issue_message repr d' = Inr (msg d')" by (simp add: msg_def)
  qed
  from parse_issues_buckets[OF this, of v es ws infos] assms show ?thesis by auto
qed

section \<open>What the try block can raise\<close>

lemma py_iter_raises: "py_iter v = Inl e \<Longrightarrow> exn_class e = TypeError"
  by (cases v) auto

lemma join_from_raises: "join_from i vs = Inl e \<Longrightarrow> exn_class e = TypeError"
  by (induction i vs rule: join_from.induct) (auto split: sum.splits)

lemma py_join_raises: "py_join sep vs = Inl e \<Longrightarrow> exn_class e = TypeError"
  by (auto simp: py_join_def dest: join_from_raises split: sum.splits)

lemma py_join_value_raises: "py_join_value sep v = Inl e \<Longrightarrow> exn_class e = TypeError"
  by (auto simp: py_join_value_def dest: py_join_raises split: sum.splits)

lemma issue_message_raises: "issue_message repr issue = Inl e \<Longrightarrow> exn_class e = TypeError"
  by (auto simp: issue_message_def Let_def dest: py_join_raises py_join_value_raises
           split: sum.splits if_splits)

lemma parse_issues_raises: "parse_issues repr items b = Inl e \<Longrightarrow> exn_class e = TypeError"
  by (induction repr items b rule: parse_issues.induct)
     (auto dest: issue_message_raises split: sum.splits)

lemma parse_operation_outcome_raises:
  "parse_operation_outcome repr oo = Inl e \<Longrightarrow> exn_class e = TypeError"
  by (auto simp: parse_operation_outcome_def Let_def dest: py_iter_raises parse_issues_raises
           split: json.splits sum.splits if_splits prod.splits)

text \<open>
  When a block raises, the three buckets are as they were before it: the messages are
  appended only at the end of a branch, after which nothing raises.
\<close>

lemma parse_branch_Raise:
  assumes "parse_branch repr resp fb st = (st', Raise e)"
  shows "l_errors st' = l_errors st \<and> l_warnings st' = l_warnings st
         \<and> l_information st' = l_information st
         \<and> (resp_json resp = Inl e
              \<or> (\<exists>oo. resp_json resp = Inr oo \<and> parse_operation_outcome repr oo = Inl e))"
  using assms
  by (auto simp: parse_branch_def Let_def split: sum.splits prod.splits if_splits)

lemma handle_response_Raise:
  assumes "handle_response repr resp st = (st', Raise e)"
  shows "l_errors st' = l_errors st \<and> l_warnings st' = l_warnings st
         \<and> l_information st' = l_information st
         \<and> (resp_json resp = Inl e
              \<or> (\<exists>oo. resp_json resp = Inr oo \<and> parse_operation_outcome repr oo = Inl e))"
  using assms parse_branch_Raise[of repr resp _ st st' e]
  by (auto simp: handle_response_def split: if_splits)

lemma load_payload_Raise:
  "load_payload E p = Inl (Raise e) \<Longrightarrow> \<exists>s. p = JStr s \<and> json_loads E s = Inl e"
  by (auto simp: load_payload_def split: json.splits sum.splits if_splits)

lemma try_body_Raise:
  assumes "try_body E p url rt prof tmo initial_locals = (st, Raise e)"
  shows "l_errors st = [] \<and> l_warnings st = [] \<and> l_information st = []
         \<and> ((\<exists>s. p = JStr s \<and> json_loads E s = Inl e)
              \<or> (\<exists>req. requests_post E req = Inl e)
              \<or> (\<exists>req resp. requests_post E req = Inr resp \<and> resp_json resp = Inl e)
              \<or> exn_class e = TypeError)"
proof (cases "load_payload E p")
  case (Inl c)
  with assms have "c = Raise e" "st = initial_locals"
    by (auto simp: try_body_def)
  with Inl load_payload_Raise[of E p e] show ?thesis
    by (auto simp: initial_locals_def)
next
  case (Inr d)
  let ?req = "build_request (py_repr E) d url rt prof tmo (detect d JNull)"
  let ?st2 = "initial_locals\<lparr>detected_resource_type := detect d JNull, events := [Post ?req]\<rparr>"
  have empty: "l_errors ?st2 = [] \<and> l_warnings ?st2 = [] \<and> l_information ?st2 = []"
    by (simp add: initial_locals_def)
  show ?thesis
  proof (cases "requests_post E ?req")
    case (Inl e')
    with Inr assms have "e' = e" "st = ?st2"
      by (auto simp: try_body_def Let_def initial_locals_def)
    with Inl empty show ?thesis by auto
  next
    case (Inr resp)
    with \<open>load_payload E p = Inr d\<close> assms
    have "handle_response (py_repr E) resp ?st2 = (st, Raise e)"
      by (simp add: try_body_def Let_def initial_locals_def)
    from handle_response_Raise[OF this] empty Inr show ?thesis
      by (auto dest: parse_operation_outcome_raises)
  qed
qed

text \<open>The record returned, from the way the try block ended.\<close>

lemma validate_after_Normal:
  assumes "try_body E p url rt prof tmo initial_locals = (st, Normal)"
  shows "validate_fhir_resource E p url rt prof tmo = Inr (final_result E st, events st)"
  using assms by (simp add: validate_fhir_resource_def)

lemma validate_after_Return:
  assumes "try_body E p url rt prof tmo initial_locals = (st, Return r)"
  shows "validate_fhir_resource E p url rt prof tmo = Inr (r, events st)"
  using assms by (simp add: validate_fhir_resource_def)

lemma validate_after_Raise:
  assumes "try_body E p url rt prof tmo initial_locals = (st, Raise e)"
    and "is_Exception (exn_class e)"
  shows "validate_fhir_resource E p url rt prof tmo =
           Inr (\<lparr>is_valid = False,
                 errors = [if is_Timeout (exn_class e)
                             then ''Request to FHIR server timed out after '' @ str_int tmo @ '' seconds''
                           else if is_ConnectionError (exn_class e)
                             then ''Could not connect to FHIR server - check URL and network connectivity''
                           else if is_RequestException (exn_class e)
                             then ''Request to FHIR server failed: '' @ exn_str e
                           else ''Unexpected error during validation: '' @ exn_str e],
                 warnings = [], information = [],
                 resource_type = detected_resource_type st,
                 timestamp = Some (utcnow_isoformat E),
                 operation_outcome = l_operation_outcome st\<rparr>, events st)"
  using assms try_body_Raise[OF assms(1)] handlers_handled[OF assms(2), of tmo st]
  by (simp add: validate_fhir_resource_def final_result_def ValidationResult_init_def post_init_def)

lemma validate_after_propagation:
  assumes "try_body E p url rt prof tmo initial_locals = (st, Raise e)"
    and "\<not> is_Exception (exn_class e)"
  shows "validate_fhir_resource E p url rt prof tmo = Inl e"
  using assms handlers_propagated[OF assms(2), of tmo st]
  by (simp add: validate_fhir_resource_def)

text \<open>A response that is a failure leaves exactly one error, or raises.\<close>

lemma parse_branch_failure:
  assumes "l_errors st = []"
    and "(\<exists>e. resp_json resp = Inl e)
         \<or> (\<exists>oo e. resp_json resp = Inr oo \<and> parse_operation_outcome repr oo = Inl e)"
  shows "(\<exists>st' m. parse_branch repr resp fb st = (st', Normal) \<and> l_errors st' = [m])
         \<or> (\<exists>st' e. parse_branch repr resp fb st = (st', Raise e))"
  using assms
  by (auto simp: parse_branch_def Let_def split: sum.splits prod.splits)

lemma handle_response_failure:
  assumes "l_errors st = []"
    and "(status_code resp \<noteq> 200 \<and> status_code resp \<noteq> 400 \<and> status_code resp \<noteq> 422)
         \<or> (\<exists>e. resp_json resp = Inl e)
         \<or> (\<exists>oo e. resp_json resp = Inr oo \<and> parse_operation_outcome repr oo = Inl e)"
  shows "(\<exists>st' m. handle_response repr resp st = (st', Normal) \<and> l_errors st' = [m])
         \<or> (\<exists>st' e. handle_response repr resp st = (st', Raise e))"
proof (cases "status_code resp = 200 \<or> status_code resp = 400 \<or> status_code resp = 422")
  case True
  with assms(2) have "(\<exists>e. resp_json resp = Inl e)
         \<or> (\<exists>oo e. resp_json resp = Inr oo \<and> parse_operation_outcome repr oo = Inl e)"
    by auto
  from parse_branch_failure[OF assms(1) this] True show ?thesis
    by (auto simp: handle_response_def)
next
  case False
  with assms(1) show ?thesis by (simp add: handle_response_def)
qed

lemma final_result_one_error:
  "l_errors st = [m] \<Longrightarrow> \<not> is_valid (final_result E st) \<and> length (errors (final_result E st)) = 1"
  by (simp add: final_result_def ValidationResult_init_def post_init_def)

lemma try_body_parser_failure:
  assumes "p = JStr s" and "json_loads E s = Inl e"
  shows "(\<exists>r. try_body E p url rt prof tmo initial_locals = (initial_locals, Return r)
              \<and> \<not> is_valid r \<and> length (errors r) = 1)
         \<or> try_body E p url rt prof tmo initial_locals = (initial_locals, Raise e)"
  using assms
  by (simp add: try_body_def load_payload_def ValidationResult_init_def post_init_def)

lemma try_body_transport_failure:
  assumes "load_payload E p = Inr d"
    and "requests_post E (build_request (py_repr E) d url rt prof tmo (detect d JNull)) = Inl e"
  shows "\<exists>st. try_body E p url rt prof tmo initial_locals = (st, Raise e)"
  using assms by (simp add: try_body_def Let_def initial_locals_def)

lemma try_body_response_failure:
  assumes "load_payload E p = Inr d"
    and "requests_post E (build_request (py_repr E) d url rt prof tmo (detect d JNull)) = Inr resp"
    and "(status_code resp \<noteq> 200 \<and> status_code resp \<noteq> 400 \<and> status_code resp \<noteq> 422)
         \<or> (\<exists>e. resp_json resp = Inl e)
         \<or> (\<exists>oo e. resp_json resp = Inr oo \<and> parse_operation_outcome (py_repr E) oo = Inl e)"
  shows "(\<exists>st m. try_body E p url rt prof tmo initial_locals = (st, Normal) \<and> l_errors st = [m])
         \<or> (\<exists>st e. try_body E p url rt prof tmo initial_locals = (st, Raise e))"
proof -
  let ?req = "build_request (py_repr E) d url rt prof tmo (detect d JNull)"
  let ?st2 = "initial_locals\<lparr>detected_resource_type := detect d JNull, events := [Post ?req]\<rparr>"
  have "try_body E p url rt prof tmo initial_locals = handle_response (py_repr E) resp ?st2"
    using assms(1,2) by (simp add: try_body_def Let_def initial_locals_def)
  moreover have "l_errors ?st2 = []" by (simp add: initial_locals_def)
  ultimately show ?thesis
    using handle_response_failure[of ?st2 resp "py_repr E", OF _ assms(3)] by simp
qed

text \<open>What a returned record looks like after each kind of failure.\<close>

lemma returned_after_Raise:
  assumes "validate_fhir_resource E p url rt prof tmo = Inr (r, evs)"
    and "try_body E p url rt prof tmo initial_locals = (st, Raise e)"
  shows "\<not> is_valid r \<and> warnings r = [] \<and> information r = []
         \<and> errors r = [if is_Timeout (exn_class e)
                          then ''Request to FHIR server timed out after '' @ str_int tmo @ '' seconds''
                        else if is_ConnectionError (exn_class e)
                          then ''Could not connect to FHIR server - check URL and network connectivity''
                        else if is_RequestException (exn_class e)
                          then ''Request to FHIR server failed: '' @ exn_str e
                        else ''Unexpected error during validation: '' @ exn_str e]"
proof (cases "is_Exception (exn_class e)")
  case True
  from validate_after_Raise[OF assms(2) True] assms(1) show ?thesis by auto
next
  case False
  from validate_after_propagation[OF assms(2) False] assms(1) show ?thesis by simp
qed

lemma returned_one_error_after_Raise:
  assumes "validate_fhir_resource E p url rt prof tmo = Inr (r, evs)"
    and "try_body E p url rt prof tmo initial_locals = (st, Raise e)"
  shows "\<not> is_valid r \<and> length (errors r) = 1"
  using returned_after_Raise[OF assms] by simp

lemma returned_after_parser_failure:
  assumes "validate_fhir_resource E p url rt prof tmo = Inr (r, evs)"
    and "p = JStr s" and "json_loads E s = Inl e"
  shows "\<not> is_valid r \<and> length (errors r) = 1"
  using try_body_parser_failure[OF assms(2,3), of url rt prof tmo]
proof (elim disjE exE conjE)
  fix r' assume "try_body E p url rt prof tmo initial_locals = (initial_locals, Return r')"
    and "\<not> is_valid r'" "length (errors r') = 1"
  with validate_after_Return[of E p url rt prof tmo initial_locals r'] assms(1)
  show ?thesis by simp
next
  assume "try_body E p url rt prof tmo initial_locals = (initial_locals, Raise e)"
  from returned_one_error_after_Raise[OF assms(1) this] show ?thesis .
qed

lemma returned_after_transport_failure:
  assumes "validate_fhir_resource E p url rt prof tmo = Inr (r, evs)"
    and "load_payload E p = Inr d"
    and "requests_post E (build_request (py_repr E) d url rt prof tmo (detect d JNull)) = Inl e"
  shows "\<not> is_valid r \<and> length (errors r) = 1"
  using try_body_transport_failure[OF assms(2,3)] returned_one_error_after_Raise[OF assms(1)]
  by blast

lemma returned_after_response_failure:
  assumes "validate_fhir_resource E p url rt prof tmo = Inr (r, evs)"
    and "load_payload E p = Inr d"
    and "requests_post E (build_request (py_repr E) d url rt prof tmo (detect d JNull)) = Inr resp"
    and "(status_code resp \<noteq> 200 \<and> status_code resp \<noteq> 400 \<and> status_code resp \<noteq> 422)
         \<or> (\<exists>e. resp_json resp = Inl e)
         \<or> (\<exists>oo e. resp_json resp = Inr oo \<and> parse_operation_outcome (py_repr E) oo = Inl e)"
  shows "\<not> is_valid r \<and> length (errors r) = 1"
  using try_body_response_failure[OF assms(2,3,4)]
proof (elim disjE exE conjE)
  fix st m assume "try_body E p url rt prof tmo initial_locals = (st, Normal)" and "l_errors st = [m]"
  with validate_after_Normal[of E p url rt prof tmo st] assms(1) final_result_one_error[of st m E]
  show ?thesis by simp
next
  fix st e assume "try_body E p url rt prof tmo initial_locals = (st, Raise e)"
  from returned_one_error_after_Raise[OF assms(1) this] show ?thesis .
qed

lemma validate_returns:
  assumes "\<forall>s e. json_loads E s = Inl e \<longrightarrow> is_Exception (exn_class e)"
    and "\<forall>req e. requests_post E req = Inl e \<longrightarrow> is_Exception (exn_class e)"
    and "\<forall>req resp e. requests_post E req = Inr resp \<and> resp_json resp = Inl e
           \<longrightarrow> is_Exception (exn_class e)"
  shows "\<exists>r evs. validate_fhir_resource E p url rt prof tmo = Inr (r, evs)"
proof -
  obtain st c where b: "try_body E p url rt prof tmo initial_locals = (st, c)" by force
  show ?thesis
  proof (cases c)
    case Normal
    with b validate_after_Normal show ?thesis by blast
  next
    case (Return r)
    with b validate_after_Return show ?thesis by blast
  next
    case (Raise e)
    with b have t: "try_body E p url rt prof tmo initial_locals = (st, Raise e)" by simp
    from try_body_Raise[OF t] assms have "is_Exception (exn_class e)" by auto
    from validate_after_Raise[OF t this] show ?thesis by blast
  qed
qed

section \<open>The sample runs\<close>

lemmas sample_defs =
  sample_env_def sample_patient_def sample_profile_def sample_request_def sample_result_def
  sample_failure_def sample_outcome_def sample_issues_def respond_def failing_def

lemmas validate_defs =
  validate_fhir_resource_def try_body_def load_payload_def handle_response_def parse_branch_def
  handlers_def final_result_def initial_locals_def ValidationResult_init_def post_init_def
  build_request_def validation_url_def rstrip_slash_def detect_def

lemmas parser_defs =
  parse_operation_outcome_def issue_message_def categorize_def severity_of_def dict_get_def
  py_join_value_def py_join_def

lemma sample_load: "load_payload (sample_env transport) sample_patient = Inr sample_patient"
  by (simp add: load_payload_def sample_patient_def)

lemma sample_build:
  "build_request (py_repr (sample_env transport)) sample_patient ''https://example.org/fhir/'' None
     (Some sample_profile) 30 (detect sample_patient JNull) = sample_request"
  by (simp add: build_request_def validation_url_def rstrip_slash_def detect_def sample_defs)

lemma sample_parse:
  "parse_operation_outcome (\<lambda>v. ''?'') sample_outcome =
     Inr (False, [''Error: name is required - Location: Patient.name''],
          [''Warning: Missing optional field''], [''Info: Validation issue (informational)''])"
  by (simp add: parser_defs sample_defs)

lemma sample_run:
  "validate_fhir_resource (sample_env (respond 200 ''{}'' (Inr sample_outcome))) sample_patient
     ''https://example.org/fhir/'' None (Some sample_profile) 30
   = Inr (sample_result, [Post sample_request, ResponseJson])"
proof -
  have "handle_response (\<lambda>v. ''?'') \<lparr>status_code = 200, resp_text = ''{}'', resp_json = Inr sample_outcome\<rparr>
          (initial_locals\<lparr>detected_resource_type := JStr ''Patient'', events := [Post sample_request]\<rparr>)
        = (\<lparr>l_errors = [''Error: name is required - Location: Patient.name''],
            l_warnings = [''Warning: Missing optional field''],
            l_information = [''Info: Validation issue (informational)''],
            detected_resource_type = JStr ''Patient'',
            l_operation_outcome = sample_outcome,
            events = [Post sample_request, ResponseJson]\<rparr>, Normal)"
    by (simp add: handle_response_def parse_branch_def sample_parse initial_locals_def)
  moreover have "detect sample_patient JNull = JStr ''Patient''"
    by (simp add: detect_def sample_patient_def)
  moreover have "py_repr (sample_env (respond 200 ''{}'' (Inr sample_outcome))) = (\<lambda>v. ''?'')"
    by (simp add: sample_env_def)
  moreover have "requests_post (sample_env (respond 200 ''{}'' (Inr sample_outcome))) sample_request
      = Inr \<lparr>status_code = 200, resp_text = ''{}'', resp_json = Inr sample_outcome\<rparr>"
    by (simp add: sample_env_def respond_def)
  moreover have "utcnow_isoformat (sample_env (respond 200 ''{}'' (Inr sample_outcome))) = ''2024-01-01T00:00:00''"
    by (simp add: sample_env_def)
  ultimately show ?thesis
    using sample_load[of "respond 200 ''{}'' (Inr sample_outcome)"]
      sample_build[of "respond 200 ''{}'' (Inr sample_outcome)"]
    by (simp add: validate_fhir_resource_def try_body_def Let_def initial_locals_def
          final_result_def ValidationResult_init_def post_init_def sample_result_def)
qed

section \<open>The claims\<close>

text \<open>
  C1. In every record that \<^verbatim>\<open>validate_fhir_resource\<close> returns, whether it comes from the
  early return on a payload that does not parse, from a transport failure or from a parsed
  outcome, \<open>is_valid\<close> equals \<^verbatim>\<open>len(errors) == 0\<close>.
\<close>

theorem is_valid_iff_no_errors:
  assumes "validate_fhir_resource E p url rt prof tmo = Inr (r, evs)"
  shows "is_valid r = (length (errors r) = 0)"
  using assms
proof (cases rule: validate_cases)
  case returned
  from load_payload_Return[OF this] show ?thesis by auto
next
  case (constructed st)
  then show ?thesis by (simp only: final_result_is_valid)
qed

theorem is_valid_iff_no_errors_witness:
  "validate_fhir_resource (sample_env (respond 200 ''{}'' (Inr sample_outcome))) sample_patient
     ''https://example.org/fhir/'' None (Some sample_profile) 30
   = Inr (sample_result, [Post sample_request, ResponseJson])
   \<and> is_valid sample_result = (length (errors sample_result) = 0)"
  using sample_run is_valid_iff_no_errors[OF sample_run] by (rule conjI)


text \<open>
  C2, as amended. Provided that whatever the JSON parser, the transport and
  \<^verbatim>\<open>response.json()\<close> raise is an instance of \<^verbatim>\<open>Exception\<close>, the call returns a record
  for every payload, server URL, resource type, profile URL and timeout, and each failure
  is turned into exactly one error string of an invalid record: an exception raised in
  the \<^verbatim>\<open>try\<close> block gives the message of the first \<^verbatim>\<open>except\<close> clause it matches, and
  a payload the parser fails on, a failed request, a response whose status is not 200,
  400 or 422, a body that cannot be read and an outcome the parser raises on each leave
  one error. An exception of the transport that is not an instance of \<^verbatim>\<open>Exception\<close>
  reaches the caller.
\<close>

theorem exceptions_converted_to_errors:
  "((\<forall>s e. json_loads E s = Inl e \<longrightarrow> is_Exception (exn_class e))
    \<and> (\<forall>req e. requests_post E req = Inl e \<longrightarrow> is_Exception (exn_class e))
    \<and> (\<forall>req resp e. requests_post E req = Inr resp \<and> resp_json resp = Inl e
           \<longrightarrow> is_Exception (exn_class e))
    \<longrightarrow> (\<exists>r evs. validate_fhir_resource E p url rt prof tmo = Inr (r, evs)
          \<and> (\<forall>st e. try_body E p url rt prof tmo initial_locals = (st, Raise e) \<longrightarrow>
                \<not> is_valid r \<and> warnings r = [] \<and> information r = []
                \<and> errors r =
                    [if is_Timeout (exn_class e)
                       then ''Request to FHIR server timed out after '' @ str_int tmo @ '' seconds''
                     else if is_ConnectionError (exn_class e)
                       then ''Could not connect to FHIR server - check URL and network connectivity''
                     else if is_RequestException (exn_class e)
                       then ''Request to FHIR server failed: '' @ exn_str e
                     else ''Unexpected error during validation: '' @ exn_str e])
          \<and> (\<forall>s e. p = JStr s \<and> json_loads E s = Inl e \<longrightarrow> \<not> is_valid r \<and> length (errors r) = 1)
          \<and> (\<forall>d e. load_payload E p = Inr d
                \<and> requests_post E (build_request (py_repr E) d url rt prof tmo (detect d JNull)) = Inl e
                \<longrightarrow> \<not> is_valid r \<and> length (errors r) = 1)
          \<and> (\<forall>d resp. load_payload E p = Inr d
                \<and> requests_post E (build_request (py_repr E) d url rt prof tmo (detect d JNull)) = Inr resp
                \<and> ((status_code resp \<noteq> 200 \<and> status_code resp \<noteq> 400 \<and> status_code resp \<noteq> 422)
                    \<or> (\<exists>e. resp_json resp = Inl e)
                    \<or> (\<exists>oo e. resp_json resp = Inr oo
                           \<and> parse_operation_outcome (py_repr E) oo = Inl e))
                \<longrightarrow> \<not> is_valid r \<and> length (errors r) = 1)))
   \<and> (\<forall>d e. load_payload E p = Inr d
         \<and> requests_post E (build_request (py_repr E) d url rt prof tmo (detect d JNull)) = Inl e
         \<and> \<not> is_Exception (exn_class e)
         \<longrightarrow> validate_fhir_resource E p url rt prof tmo = Inl e)"
proof (intro conjI impI allI)
  assume h: "(\<forall>s e. json_loads E s = Inl e \<longrightarrow> is_Exception (exn_class e))
    \<and> (\<forall>req e. requests_post E req = Inl e \<longrightarrow> is_Exception (exn_class e))
    \<and> (\<forall>req resp e. requests_post E req = Inr resp \<and> resp_json resp = Inl e
           \<longrightarrow> is_Exception (exn_class e))"
  then obtain r evs where v: "validate_fhir_resource E p url rt prof tmo = Inr (r, evs)"
    using validate_returns[of E p url rt prof tmo] by blast
  show "\<exists>r evs. validate_fhir_resource E p url rt prof tmo = Inr (r, evs)
          \<and> (\<forall>st e. try_body E p url rt prof tmo initial_locals = (st, Raise e) \<longrightarrow>
                \<not> is_valid r \<and> warnings r = [] \<and> information r = []
                \<and> errors r =
                    [if is_Timeout (exn_class e)
                       then ''Request to FHIR server timed out after '' @ str_int tmo @ '' seconds''
                     else if is_ConnectionError (exn_class e)
                       then ''Could not connect to FHIR server - check URL and network connectivity''
                     else if is_RequestException (exn_class e)
                       then ''Request to FHIR server failed: '' @ exn_str e
                     else ''Unexpected error during validation: '' @ exn_str e])
          \<and> (\<forall>s e. p = JStr s \<and> json_loads E s = Inl e \<longrightarrow> \<not> is_valid r \<and> length (errors r) = 1)
          \<and> (\<forall>d e. load_payload E p = Inr d
                \<and> requests_post E (build_request (py_repr E) d url rt prof tmo (detect d JNull)) = Inl e
                \<longrightarrow> \<not> is_valid r \<and> length (errors r) = 1)
          \<and> (\<forall>d resp. load_payload E p = Inr d
                \<and> requests_post E (build_request (py_repr E) d url rt prof tmo (detect d JNull)) = Inr resp
                \<and> ((status_code resp \<noteq> 200 \<and> status_code resp \<noteq> 400 \<and> status_code resp \<noteq> 422)
                    \<or> (\<exists>e. resp_json resp = Inl e)
                    \<or> (\<exists>oo e. resp_json resp = Inr oo
                           \<and> parse_operation_outcome (py_repr E) oo = Inl e))
                \<longrightarrow> \<not> is_valid r \<and> length (errors r) = 1)"
  proof (intro exI[of _ r] exI[of _ evs] conjI allI impI)
    show "validate_fhir_resource E p url rt prof tmo = Inr (r, evs)" by (rule v)
  next
    fix st e assume t: "try_body E p url rt prof tmo initial_locals = (st, Raise e)"
    from returned_after_Raise[OF v t]
    show "\<not> is_valid r" and "warnings r = []" and "information r = []"
      and "errors r =
                    [if is_Timeout (exn_class e)
                       then ''Request to FHIR server timed out after '' @ str_int tmo @ '' seconds''
                     else if is_ConnectionError (exn_class e)
                       then ''Could not connect to FHIR server - check URL and network connectivity''
                     else if is_RequestException (exn_class e)
                       then ''Request to FHIR server failed: '' @ exn_str e
                     else ''Unexpected error during validation: '' @ exn_str e]"
      by simp_all
  next
    fix s e assume a: "p = JStr s \<and> json_loads E s = Inl e"
    from returned_after_parser_failure[OF v] a
    show "\<not> is_valid r" and "length (errors r) = 1" by blast+
  next
    fix d e assume a: "load_payload E p = Inr d
                \<and> requests_post E (build_request (py_repr E) d url rt prof tmo (detect d JNull)) = Inl e"
    from returned_after_transport_failure[OF v] a
    show "\<not> is_valid r" and "length (errors r) = 1" by blast+
  next
    fix d resp assume a: "load_payload E p = Inr d
                \<and> requests_post E (build_request (py_repr E) d url rt prof tmo (detect d JNull)) = Inr resp
                \<and> ((status_code resp \<noteq> 200 \<and> status_code resp \<noteq> 400 \<and> status_code resp \<noteq> 422)
                    \<or> (\<exists>e. resp_json resp = Inl e)
                    \<or> (\<exists>oo e. resp_json resp = Inr oo
                           \<and> parse_operation_outcome (py_repr E) oo = Inl e))"
    from returned_after_response_failure[OF v, of d resp] a
    show "\<not> is_valid r" and "length (errors r) = 1" by blast+
  qed
next
  fix d e assume a: "load_payload E p = Inr d
         \<and> requests_post E (build_request (py_repr E) d url rt prof tmo (detect d JNull)) = Inl e
         \<and> \<not> is_Exception (exn_class e)"
  then obtain st where "try_body E p url rt prof tmo initial_locals = (st, Raise e)"
    using try_body_transport_failure by blast
  from validate_after_propagation[OF this] a
  show "validate_fhir_resource E p url rt prof tmo = Inl e" by blast
qed

theorem exceptions_converted_to_errors_witness:
  "\<exists>r evs. validate_fhir_resource (sample_env (respond 200 ''{}'' (Inr sample_bad_outcome))) sample_patient
              ''https://example.org/fhir/'' None (Some sample_profile) 30 = Inr (r, evs)
     \<and> \<not> is_valid r \<and> warnings r = [] \<and> information r = []
     \<and> errors r = [''Unexpected error during validation: sequence item 0: expected str instance, int found'']"
proof -
  let ?E = "sample_env (respond 200 ''{}'' (Inr sample_bad_outcome))"
  let ?e = "Exn TypeError ''sequence item 0: expected str instance, int found''"
  have parser: "\<forall>s e. json_loads ?E s = Inl e \<longrightarrow> is_Exception (exn_class e)"
    by (auto simp: sample_env_def split: if_splits)
  have transport: "\<forall>req e. requests_post ?E req = Inl e \<longrightarrow> is_Exception (exn_class e)"
    by (simp add: sample_env_def respond_def)
  have body: "\<forall>req resp e. requests_post ?E req = Inr resp \<and> resp_json resp = Inl e
                \<longrightarrow> is_Exception (exn_class e)"
    by (auto simp: sample_env_def respond_def)
  have z: "str_nat 0 = ''0''"
    by code_simp
  have p: "parse_operation_outcome (\<lambda>v. ''?'') sample_bad_outcome = Inl ?e"
    by (simp add: sample_bad_outcome_def parser_defs z)
  have t: "\<exists>st. try_body ?E sample_patient ''https://example.org/fhir/'' None (Some sample_profile) 30
                  initial_locals = (st, Raise ?e)"
    using sample_load[of "respond 200 ''{}'' (Inr sample_bad_outcome)"]
      sample_build[of "respond 200 ''{}'' (Inr sample_bad_outcome)"]
    by (simp add: try_body_def Let_def handle_response_def parse_branch_def p
          sample_env_def respond_def initial_locals_def)
  from exceptions_converted_to_errors[of ?E sample_patient "''https://example.org/fhir/''" None
         "Some sample_profile" 30] parser transport body
  obtain r evs where
    v: "validate_fhir_resource ?E sample_patient ''https://example.org/fhir/'' None
          (Some sample_profile) 30 = Inr (r, evs)"
    and c: "\<forall>st e. try_body ?E sample_patient ''https://example.org/fhir/'' None (Some sample_profile) 30
                      initial_locals = (st, Raise e) \<longrightarrow>
                \<not> is_valid r \<and> warnings r = [] \<and> information r = []
                \<and> errors r =
                    [if is_Timeout (exn_class e)
                       then ''Request to FHIR server timed out after '' @ str_int 30 @ '' seconds''
                     else if is_ConnectionError (exn_class e)
                       then ''Could not connect to FHIR server - check URL and network connectivity''
                     else if is_RequestException (exn_class e)
                       then ''Request to FHIR server failed: '' @ exn_str e
                     else ''Unexpected error during validation: '' @ exn_str e]"
    by blast
  from t c have "\<not> is_valid r \<and> warnings r = [] \<and> information r = []
     \<and> errors r = [''Unexpected error during validation: sequence item 0: expected str instance, int found'']"
    by fastforce
  with v show ?thesis by blast
qed

text \<open>
  C2, as stated, fails: a \<^verbatim>\<open>KeyboardInterrupt\<close> raised while the request is posted matches
  none of the \<^verbatim>\<open>except\<close> clauses and reaches the caller.
\<close>

theorem keyboard_interrupt_propagates_counterexample:
  "validate_fhir_resource (sample_env (failing (Exn KeyboardInterrupt []))) sample_patient
     ''https://example.org/fhir/'' None (Some sample_profile) 30
   = Inl (Exn KeyboardInterrupt [])"
  by (simp add: validate_defs sample_defs)

text \<open>
  C3. A string payload that the JSON parser rejects gives at once a record with
  \<open>is_valid\<close> false, the single error that reports the parse failure, no warnings, no
  information, no resource type and no outcome; the list of events is empty, so nothing
  was posted.
\<close>

theorem invalid_json_short_circuit:
  assumes "json_loads E s = Inl e"
    and "is_JSONDecodeError (exn_class e)"
  shows "validate_fhir_resource E (JStr s) url rt prof tmo =
     Inr (\<lparr>is_valid = False, errors = [''Invalid JSON format: '' @ exn_str e], warnings = [],
           information = [], resource_type = JNull, timestamp = Some (utcnow_isoformat E),
           operation_outcome = JNull\<rparr>, [])"
  using assms
  by (simp add: validate_fhir_resource_def try_body_def load_payload_def
        ValidationResult_init_def post_init_def initial_locals_def)

theorem invalid_json_short_circuit_witness:
  "json_loads (sample_env (failing (Exn Timeout ''unused''))) ''{bad''
     = Inl (Exn JSONDecodeError ''Expecting value: line 1 column 1 (char 0)'')
   \<and> is_JSONDecodeError JSONDecodeError
   \<and> validate_fhir_resource (sample_env (failing (Exn Timeout ''unused''))) (JStr ''{bad'')
        ''https://example.org/fhir/'' None None 30
      = Inr (sample_failure ''Invalid JSON format: Expecting value: line 1 column 1 (char 0)'' JNull, [])"
proof -
  have h: "json_loads (sample_env (failing (Exn Timeout ''unused''))) ''{bad''
     = Inl (Exn JSONDecodeError ''Expecting value: line 1 column 1 (char 0)'')"
    by (simp add: sample_env_def)
  have c: "is_JSONDecodeError (exn_class (Exn JSONDecodeError ''Expecting value: line 1 column 1 (char 0)''))"
    by simp
  show ?thesis
    using h invalid_json_short_circuit[OF h c, of "''https://example.org/fhir/''" None None 30]
    by (simp add: sample_failure_def sample_env_def)
qed


text \<open>
  C4. When the transport raises an exception of the \<^verbatim>\<open>requests\<close> library, the record has
  \<open>is_valid\<close> false, exactly one error and no outcome, and the body of the response is
  never read. The error is chosen by the first matching class: a timeout gives the
  message with the configured timeout, a connection failure the fixed connection message,
  any other request exception the message with the text of the exception.
\<close>

theorem transport_failure_result:
  assumes "load_payload E p = Inr resource_dict"
    and "req = build_request (py_repr E) resource_dict url rt prof tmo (detect resource_dict JNull)"
    and "requests_post E req = Inl e"
    and "is_RequestException (exn_class e)"
  shows "validate_fhir_resource E p url rt prof tmo =
           Inr (\<lparr>is_valid = False,
                 errors = [if is_Timeout (exn_class e)
                             then ''Request to FHIR server timed out after '' @ str_int tmo @ '' seconds''
                           else if is_ConnectionError (exn_class e)
                             then ''Could not connect to FHIR server - check URL and network connectivity''
                           else ''Request to FHIR server failed: '' @ exn_str e],
                 warnings = [], information = [],
                 resource_type = detect resource_dict JNull,
                 timestamp = Some (utcnow_isoformat E),
                 operation_outcome = JNull\<rparr>, [Post req])
         \<and> sublist (str_int tmo) (''Request to FHIR server timed out after '' @ str_int tmo @ '' seconds'')
         \<and> sublist (exn_str e) (''Request to FHIR server failed: '' @ exn_str e)"
proof -
  have "sublist (str_int tmo) (''Request to FHIR server timed out after '' @ str_int tmo @ '' seconds'')"
    unfolding sublist_def by blast
  moreover have "sublist (exn_str e) (''Request to FHIR server failed: '' @ exn_str e)"
    unfolding sublist_def by (metis append_Nil2)
  moreover have "validate_fhir_resource E p url rt prof tmo =
           Inr (\<lparr>is_valid = False,
                 errors = [if is_Timeout (exn_class e)
                             then ''Request to FHIR server timed out after '' @ str_int tmo @ '' seconds''
                           else if is_ConnectionError (exn_class e)
                             then ''Could not connect to FHIR server - check URL and network connectivity''
                           else ''Request to FHIR server failed: '' @ exn_str e],
                 warnings = [], information = [],
                 resource_type = detect resource_dict JNull,
                 timestamp = Some (utcnow_isoformat E),
                 operation_outcome = JNull\<rparr>, [Post req])"
    using assms
    by (simp add: validate_fhir_resource_def try_body_def Let_def initial_locals_def handlers_def
          final_result_def ValidationResult_init_def post_init_def)
  ultimately show ?thesis by blast
qed

theorem transport_failure_result_witness:
  "validate_fhir_resource (sample_env (failing (Exn ConnectTimeout ''connect timed out''))) sample_patient
     ''https://example.org/fhir/'' None (Some sample_profile) 30
   = Inr (sample_failure ''Request to FHIR server timed out after 30 seconds'' (JStr ''Patient''),
          [Post sample_request])
   \<and> sublist ''30'' ''Request to FHIR server timed out after 30 seconds''"
proof -
  let ?E = "sample_env (failing (Exn ConnectTimeout ''connect timed out''))"
  have p: "requests_post ?E sample_request = Inl (Exn ConnectTimeout ''connect timed out'')"
    by (simp add: sample_env_def failing_def)
  have c: "is_RequestException (exn_class (Exn ConnectTimeout ''connect timed out''))"
    by simp
  have s: "str_int 30 = ''30''"
    by code_simp
  show ?thesis
    using transport_failure_result[OF sample_load sample_build[symmetric] p c]
    by (simp add: s sample_failure_def sample_env_def detect_def sample_patient_def)
qed


text \<open>
  C5. A response with status 404 gives exactly one error, the one about the endpoint that
  was not found, and no outcome. The record does not depend on the body of the response,
  and the only event is the request: \<^verbatim>\<open>response.json()\<close> is not called.
\<close>

theorem status_404_result:
  assumes "load_payload E p = Inr resource_dict"
    and "req = build_request (py_repr E) resource_dict url rt prof tmo (detect resource_dict JNull)"
    and "requests_post E req = Inr resp"
    and "status_code resp = 404"
  shows "validate_fhir_resource E p url rt prof tmo =
           Inr (\<lparr>is_valid = False,
                 errors = [''FHIR server validation endpoint not found - check server URL and resource type''],
                 warnings = [], information = [],
                 resource_type = detect resource_dict JNull,
                 timestamp = Some (utcnow_isoformat E),
                 operation_outcome = JNull\<rparr>, [Post req])"
  using assms
  by (simp add: validate_fhir_resource_def try_body_def Let_def initial_locals_def handle_response_def
          final_result_def ValidationResult_init_def post_init_def)

theorem status_404_result_witness:
  "validate_fhir_resource (sample_env (respond 404 ''{}'' (Inr sample_outcome))) sample_patient ''https://example.org/fhir/'' None (Some sample_profile) 30
   = Inr (sample_failure
            ''FHIR server validation endpoint not found - check server URL and resource type''
            (JStr ''Patient''),
          [Post sample_request])"
proof -
  let ?E = "sample_env (respond 404 ''{}'' (Inr sample_outcome))"
  have p: "requests_post ?E sample_request
           = Inr \<lparr>status_code = 404, resp_text = ''{}'',
                  resp_json = Inr sample_outcome\<rparr>"
    by (simp add: sample_env_def respond_def)
  show ?thesis
    using status_404_result[OF sample_load sample_build[symmetric] p]
    by (simp add: sample_failure_def sample_env_def detect_def sample_patient_def)
qed

text \<open>
  C6. In an outcome document of the right type whose issues all have a message, each
  issue that is a dictionary goes to the bucket of its severity, in the order of the list:
  \<^verbatim>\<open>fatal\<close> and \<^verbatim>\<open>error\<close> to the errors, \<^verbatim>\<open>warning\<close> to the warnings,
  \<^verbatim>\<open>information\<close> to the information; an issue of any other severity appears in no
  bucket. The validity flag is false exactly when some issue is fatal or an error. Whatever
  the other issues are, the parser never reports a document with a fatal or error issue
  as valid.
\<close>

theorem severity_bucketing:
  assumes "map_of doc ''resourceType'' = Some (JStr ''OperationOutcome'')"
    and "map_of doc ''issue'' = Some (JList items)"
  shows "((\<forall>d. JDict d \<in> set items \<longrightarrow> issue_message repr d = Inr (msg d)) \<longrightarrow>
     parse_operation_outcome repr (JDict doc) =
     Inr (\<not> (\<exists>d. JDict d \<in> set items \<and> (severity_of d = JStr ''fatal'' \<or> severity_of d = JStr ''error'')),
          map (\<lambda>d. ''Error: '' @ msg d)
                 (filter (\<lambda>d. severity_of d = JStr ''fatal'' \<or> severity_of d = JStr ''error'') (dict_entries items)),
          map (\<lambda>d. ''Warning: '' @ msg d)
                 (filter (\<lambda>d. severity_of d = JStr ''warning'') (dict_entries items)),
          map (\<lambda>d. ''Info: '' @ msg d)
                 (filter (\<lambda>d. severity_of d = JStr ''information'') (dict_entries items))
          @ (if items = [] then [''Validation completed successfully''] else [])))
    \<and> (\<forall>d es ws infos. JDict d \<in> set items
           \<and> (severity_of d = JStr ''fatal'' \<or> severity_of d = JStr ''error'')
         \<longrightarrow> parse_operation_outcome repr (JDict doc) \<noteq> Inr (True, es, ws, infos))"
proof (intro conjI impI allI)
  assume m: "\<forall>d. JDict d \<in> set items \<longrightarrow> issue_message repr d = Inr (msg d)"
  from assms parse_issues_buckets[OF m, of True "[]" "[]" "[]"]
  show "parse_operation_outcome repr (JDict doc) =
     Inr (\<not> (\<exists>d. JDict d \<in> set items \<and> (severity_of d = JStr ''fatal'' \<or> severity_of d = JStr ''error'')),
          map (\<lambda>d. ''Error: '' @ msg d)
                 (filter (\<lambda>d. severity_of d = JStr ''fatal'' \<or> severity_of d = JStr ''error'') (dict_entries items)),
          map (\<lambda>d. ''Warning: '' @ msg d)
                 (filter (\<lambda>d. severity_of d = JStr ''warning'') (dict_entries items)),
          map (\<lambda>d. ''Info: '' @ msg d)
                 (filter (\<lambda>d. severity_of d = JStr ''information'') (dict_entries items))
          @ (if items = [] then [''Validation completed successfully''] else []))"
    by (simp add: parse_operation_outcome_def dict_get_def)
next
  fix d es ws infos
  assume a: "JDict d \<in> set items \<and> (severity_of d = JStr ''fatal'' \<or> severity_of d = JStr ''error'')"
  show "parse_operation_outcome repr (JDict doc) \<noteq> Inr (True, es, ws, infos)"
  proof
    assume p: "parse_operation_outcome repr (JDict doc) = Inr (True, es, ws, infos)"
    with assms obtain es' ws' infos' where
      "parse_issues repr items (True, [], [], []) = Inr (True, es', ws', infos')"
      by (auto simp: parse_operation_outcome_def dict_get_def split: sum.splits if_splits)
    from parse_issues_invalid[OF this] a show False by blast
  qed
qed

theorem severity_bucketing_witness:
  "parse_operation_outcome (\<lambda>v. ''?'') sample_outcome =
     Inr (False, [''Error: name is required - Location: Patient.name''],
          [''Warning: Missing optional field''], [''Info: Validation issue (informational)''])"
proof -
  let ?doc = "[(''resourceType'', JStr ''OperationOutcome''), (''issue'', JList sample_issues)]"
  have t: "map_of ?doc ''resourceType'' = Some (JStr ''OperationOutcome'')" by simp
  have i: "map_of ?doc ''issue'' = Some (JList sample_issues)" by simp
  have m: "\<forall>d. JDict d \<in> set sample_issues \<longrightarrow> issue_message (\<lambda>v. ''?'') d = Inr (sample_message d)"
    by (auto simp: sample_issues_def sample_message_def parser_defs)
  have e: "dict_entries sample_issues =
             [[(''severity'', JStr ''warning''), (''diagnostics'', JStr ''Missing optional field'')],
              [(''severity'', JStr ''error''), (''code'', JStr ''required''),
               (''details'', JDict [(''text'', JStr ''name is required'')]),
               (''location'', JList [JStr ''Patient.name''])],
              [(''severity'', JStr ''debug''), (''diagnostics'', JStr ''ignored'')],
              [(''severity'', JStr ''information''), (''code'', JStr ''informational'')]]"
    by (simp add: sample_issues_def)
  have n: "sample_issues \<noteq> []" by (simp add: sample_issues_def)
  have x: "\<exists>d. JDict d \<in> set sample_issues \<and> (severity_of d = JStr ''fatal'' \<or> severity_of d = JStr ''error'')"
    by (rule exI[of _ "[(''severity'', JStr ''error''), (''code'', JStr ''required''),
               (''details'', JDict [(''text'', JStr ''name is required'')]),
               (''location'', JList [JStr ''Patient.name''])]"])
       (simp add: sample_issues_def severity_of_def dict_get_def)
  from severity_bucketing[OF t i, of "\<lambda>v. ''?''" sample_message] m
  have "parse_operation_outcome (\<lambda>v. ''?'') (JDict ?doc) =
     Inr (\<not> (\<exists>d. JDict d \<in> set sample_issues \<and> (severity_of d = JStr ''fatal'' \<or> severity_of d = JStr ''error'')),
          map (\<lambda>d. ''Error: '' @ sample_message d)
                 (filter (\<lambda>d. severity_of d = JStr ''fatal'' \<or> severity_of d = JStr ''error'') (dict_entries sample_issues)),
          map (\<lambda>d. ''Warning: '' @ sample_message d)
                 (filter (\<lambda>d. severity_of d = JStr ''warning'') (dict_entries sample_issues)),
          map (\<lambda>d. ''Info: '' @ sample_message d)
                 (filter (\<lambda>d. severity_of d = JStr ''information'') (dict_entries sample_issues))
          @ (if sample_issues = [] then [''Validation completed successfully''] else []))"
    by blast
  then show ?thesis
    using x n
    by (simp add: e sample_outcome_def sample_message_def parser_defs)
qed

text \<open>
  C7. An outcome document of type \<^verbatim>\<open>OperationOutcome\<close> whose issue list is absent or empty
  is parsed as valid, with no errors, no warnings and the single information
  \<^verbatim>\<open>Validation completed successfully\<close>.
\<close>

theorem empty_issue_list_success:
  assumes "map_of d ''resourceType'' = Some (JStr ''OperationOutcome'')"
    and "map_of d ''issue'' = None \<or> map_of d ''issue'' = Some (JList [])"
  shows "parse_operation_outcome repr (JDict d) = Inr (True, [], [], [''Validation completed successfully''])"
  using assms by (auto simp: parse_operation_outcome_def dict_get_def)

theorem empty_issue_list_success_witness:
  "parse_operation_outcome (\<lambda>v. ''?'') (JDict [(''resourceType'', JStr ''OperationOutcome''), (''issue'', JList [])])
     = Inr (True, [], [], [''Validation completed successfully''])
   \<and> parse_operation_outcome (\<lambda>v. ''?'') (JDict [(''resourceType'', JStr ''OperationOutcome'')])
     = Inr (True, [], [], [''Validation completed successfully''])"
proof (rule conjI)
  show "parse_operation_outcome (\<lambda>v. ''?'') (JDict [(''resourceType'', JStr ''OperationOutcome''), (''issue'', JList [])])
     = Inr (True, [], [], [''Validation completed successfully''])"
    by (rule empty_issue_list_success) simp_all
  show "parse_operation_outcome (\<lambda>v. ''?'') (JDict [(''resourceType'', JStr ''OperationOutcome'')])
     = Inr (True, [], [], [''Validation completed successfully''])"
    by (rule empty_issue_list_success) simp_all
qed

lemma sample_override_run:
  "validate_fhir_resource (sample_env (failing (Exn ConnectionError ''refused''))) sample_observation
     ''https://example.org/fhir'' (Some ''Patient'') (Some sample_profile) 30
   = Inr (sample_failure ''Could not connect to FHIR server - check URL and network connectivity''
            (JStr ''Observation''),
          [Post sample_override_request])"
  by (simp add: validate_defs sample_defs sample_observation_def sample_override_request_def)

lemma sample_override_load:
  "load_payload (sample_env transport) sample_observation = Inr sample_observation"
  by (simp add: load_payload_def sample_observation_def)

text \<open>
  C8. The call posts exactly one request, first of all its events. Its URL is the base URL
  without its trailing slashes, followed by the resource type given as argument when that
  is a non-empty string, otherwise by the \<^verbatim>\<open>resourceType\<close> of the payload when that is
  present and true, otherwise by nothing, and then by \<^verbatim>\<open>/$validate\<close>. The profile URL,
  when it is a non-empty string, is the query parameter \<^verbatim>\<open>profile\<close> and has no part
  in the URL.
\<close>

theorem validation_url_construction:
  assumes "load_payload E p = Inr resource_dict"
    and "validate_fhir_resource E p url rt prof tmo = Inr (r, evs)"
    and "detected = detect resource_dict JNull"
    and "base = rstrip_slash url"
  shows "\<exists>req rest. evs = Post req # rest \<and> (rest = [] \<or> rest = [ResponseJson])
           \<and> (\<forall>t. rt = Some t \<and> t \<noteq> [] \<longrightarrow> req_url req = base @ ''/'' @ t @ ''/$validate'')
           \<and> ((rt = None \<or> rt = Some []) \<and> truthy detected
                 \<longrightarrow> req_url req = base @ ''/'' @ py_str (py_repr E) detected @ ''/$validate'')
           \<and> ((rt = None \<or> rt = Some []) \<and> \<not> truthy detected \<longrightarrow> req_url req = base @ ''/$validate'')
           \<and> req_params req = (case prof of Some q \<Rightarrow> if q \<noteq> [] then [(''profile'', q)] else [] | None \<Rightarrow> [])
           \<and> (\<exists>k. url = base @ replicate k CHR ''/'')
           \<and> (base = [] \<or> last base \<noteq> CHR ''/'')"
proof -
  from try_body_events[OF assms(1), of url rt prof tmo] validate_events[OF assms(1,2)]
  obtain rest where ev: "evs = Post (build_request (py_repr E) resource_dict url rt prof tmo detected) # rest"
    and rest: "rest = [] \<or> rest = [ResponseJson]"
    using assms(3) by auto
  let ?req = "build_request (py_repr E) resource_dict url rt prof tmo detected"
  have a: "\<forall>t. rt = Some t \<and> t \<noteq> [] \<longrightarrow> req_url ?req = base @ ''/'' @ t @ ''/$validate''"
    by (simp add: build_request_def validation_url_def assms(4))
  have b: "(rt = None \<or> rt = Some []) \<and> truthy detected
                 \<longrightarrow> req_url ?req = base @ ''/'' @ py_str (py_repr E) detected @ ''/$validate''"
    by (auto simp: build_request_def validation_url_def assms(4))
  have c: "(rt = None \<or> rt = Some []) \<and> \<not> truthy detected \<longrightarrow> req_url ?req = base @ ''/$validate''"
    by (auto simp: build_request_def validation_url_def assms(4))
  have d: "req_params ?req = (case prof of Some q \<Rightarrow> if q \<noteq> [] then [(''profile'', q)] else [] | None \<Rightarrow> [])"
    by (simp add: build_request_def)
  from ev rest a b c d rstrip_slash_decompose[of url] rstrip_slash_last[of url]
  show ?thesis unfolding assms(4) by blast
qed

theorem validation_url_construction_witness:
  "validate_fhir_resource (sample_env (failing (Exn ConnectionError ''refused''))) sample_observation
     ''https://example.org/fhir'' (Some ''Patient'') (Some sample_profile) 30
   = Inr (sample_failure ''Could not connect to FHIR server - check URL and network connectivity''
            (JStr ''Observation''),
          [Post sample_override_request])
   \<and> (\<exists>req rest. [Post sample_override_request] = Post req # rest
         \<and> req_url req = ''https://example.org/fhir/Patient/$validate''
         \<and> req_params req = [(''profile'', sample_profile)])"
proof -
  have b: "''https://example.org/fhir'' = rstrip_slash ''https://example.org/fhir''"
    by (simp add: rstrip_slash_def)
  from validation_url_construction[OF sample_override_load sample_override_run refl b]
  obtain req rest where "[Post sample_override_request] = Post req # rest"
    and "\<forall>t. Some ''Patient'' = Some t \<and> t \<noteq> [] \<longrightarrow>
           req_url req = ''https://example.org/fhir'' @ ''/'' @ t @ ''/$validate''"
    and "req_params req = (case Some sample_profile of Some q \<Rightarrow> if q \<noteq> [] then [(''profile'', q)] else []
                           | None \<Rightarrow> [])"
    by blast
  then have "[Post sample_override_request] = Post req # rest
         \<and> req_url req = ''https://example.org/fhir/Patient/$validate''
         \<and> req_params req = [(''profile'', sample_profile)]"
    by (simp add: sample_profile_def)
  with sample_override_run show ?thesis by blast
qed

lemma final_result_timestamp: "timestamp (final_result E st) = Some (utcnow_isoformat E)"
  by (simp add: final_result_def ValidationResult_init_def post_init_def)

text \<open>
  C9, as amended. The record that \<^verbatim>\<open>validate_fhir_resource\<close> returns carries the time of
  its construction as timestamp, and running \<^verbatim>\<open>__post_init__\<close> on it again at any other
  time leaves it as it is. The class is not frozen: an assignment to any field of the
  record by whoever holds it is carried out and raises nothing.
\<close>

theorem result_timestamp_set_at_construction:
  assumes "validate_fhir_resource E p url rt prof tmo = Inr (r, evs)"
  shows "timestamp r = Some (utcnow_isoformat E)
         \<and> post_init later r = r
         \<and> (\<forall>a. ValidationResult_setattr r a = Inr (assign a r))"
proof -
  have t: "timestamp r = Some (utcnow_isoformat E)"
    using assms
  proof (cases rule: validate_cases)
    case returned
    from load_payload_Return[OF this] show ?thesis by auto
  next
    case (constructed st)
    then show ?thesis by (simp only: final_result_timestamp)
  qed
  then have "post_init later r = r"
    by (simp add: post_init_def)
  moreover have "\<forall>a. ValidationResult_setattr r a = Inr (assign a r)"
    by (simp add: ValidationResult_setattr_def ValidationResult_frozen_def)
  ultimately show ?thesis using t by blast
qed

theorem result_timestamp_set_at_construction_witness:
  "validate_fhir_resource (sample_env (respond 200 ''{}'' (Inr sample_outcome))) sample_patient
     ''https://example.org/fhir/'' None (Some sample_profile) 30
   = Inr (sample_result, [Post sample_request, ResponseJson])
   \<and> timestamp sample_result = Some ''2024-01-01T00:00:00''
   \<and> post_init ''2030-06-30T12:00:00'' sample_result = sample_result
   \<and> ValidationResult_setattr sample_result (Set_is_valid True) = Inr (sample_result\<lparr>is_valid := True\<rparr>)"
  using sample_run result_timestamp_set_at_construction[OF sample_run, of "''2030-06-30T12:00:00''"]
  by (simp add: sample_env_def)

text \<open>
  C9, as stated, fails: the record returned for a payload that does not parse can be given
  another timestamp by an ordinary assignment.
\<close>

theorem timestamp_reassigned_counterexample:
  "validate_fhir_resource (sample_env (failing (Exn Timeout ''unused''))) (JStr ''{bad'')
        ''https://example.org/fhir/'' None None 30
      = Inr (sample_failure ''Invalid JSON format: Expecting value: line 1 column 1 (char 0)'' JNull, [])
   \<and> ValidationResult_setattr
        (sample_failure ''Invalid JSON format: Expecting value: line 1 column 1 (char 0)'' JNull)
        (Set_timestamp (Some ''1999-12-31T23:59:59''))
      = Inr ((sample_failure ''Invalid JSON format: Expecting value: line 1 column 1 (char 0)'' JNull)
               \<lparr>timestamp := Some ''1999-12-31T23:59:59''\<rparr>)
   \<and> timestamp ((sample_failure ''Invalid JSON format: Expecting value: line 1 column 1 (char 0)'' JNull)
               \<lparr>timestamp := Some ''1999-12-31T23:59:59''\<rparr>)
      \<noteq> timestamp (sample_failure ''Invalid JSON format: Expecting value: line 1 column 1 (char 0)'' JNull)"
  by (simp add: validate_defs sample_defs ValidationResult_setattr_def ValidationResult_frozen_def)

text \<open>
  C10. For every record, \<^verbatim>\<open>valid\<close> of \<^verbatim>\<open>environment.py\<close> raises \<^verbatim>\<open>AttributeError\<close>: it
  reads the attribute \<^verbatim>\<open>valid\<close>, and the record has none of that name (the flag is
  \<^verbatim>\<open>is_valid\<close>). It returns no value.
\<close>

theorem valid_raises_AttributeError:
  "valid r = Inl (Exn AttributeError
                   (apostrophe @ ''ValidationResult'' @ apostrophe @ '' object has no attribute ''
                    @ apostrophe @ ''valid'' @ apostrophe))"
  by (simp add: valid_def ValidationResult_getattr_def)

end
